theory Spec2Isabelle
  imports Complex_Main
begin

section \<open>Time values of the JavaScript Date object\<close>

text \<open>
  A Date holds a time value: integer milliseconds since 1970-01-01T00:00:00Z. The
  functions below are the abstract operations of the ECMAScript Date specification
  that the repository's code reaches through \<^verbatim>\<open>getUTCDate\<close>, \<^verbatim>\<open>setUTCDate\<close>,
  \<^verbatim>\<open>setUTCHours\<close>, \<^verbatim>\<open>getDate\<close>, \<^verbatim>\<open>setDate\<close>, \<^verbatim>\<open>setHours\<close> and
  \<^verbatim>\<open>getHours\<close>. A valid Date lies within 100,000,000 days either side of the
  epoch; a set-method that computes a time value beyond that leaves an Invalid Date,
  which is \<open>None\<close> here.
\<close>

type_synonym timevalue = int

definition msPerDay :: int where "msPerDay = 86400000"
definition msPerHour :: int where "msPerHour = 3600000"
definition msPerMinute :: int where "msPerMinute = 60000"
definition msPerSecond :: int where "msPerSecond = 1000"

definition Day :: "timevalue \<Rightarrow> int" where
  "Day t = t div msPerDay"

definition TimeWithinDay :: "timevalue \<Rightarrow> int" where
  "TimeWithinDay t = t mod msPerDay"

definition DaysInYear :: "int \<Rightarrow> int" where
  "DaysInYear y =
     (if y mod 4 \<noteq> 0 then 365
      else if y mod 100 \<noteq> 0 then 366
      else if y mod 400 \<noteq> 0 then 365
      else 366)"

definition DayFromYear :: "int \<Rightarrow> int" where
  "DayFromYear y =
     365 * (y - 1970) + (y - 1969) div 4 - (y - 1901) div 100 + (y - 1601) div 400"

lemma div_unique_int:
  fixes a k q r :: int
  assumes "a = k * q + r" "0 \<le> r" "r < k"
  shows "a div k = q"
  using assms by force

lemma div_step:
  fixes a k :: int
  assumes "0 < k"
  shows "(a + 1) div k = a div k + (if (a + 1) mod k = 0 then 1 else 0)"
proof (cases "(a + 1) mod k = 0")
  case True
  have "a = k * ((a + 1) div k - 1) + (k - 1)"
    using True mult_div_mod_eq [of k "a + 1"] by (simp add: algebra_simps)
  then have "a div k = (a + 1) div k - 1"
    using assms by (intro div_unique_int [where r = "k - 1"]) simp_all
  then show ?thesis using True by simp
next
  case False
  have "a = k * ((a + 1) div k) + ((a + 1) mod k - 1)"
    using mult_div_mod_eq [of k "a + 1"] by (simp add: algebra_simps)
  moreover have "0 \<le> (a + 1) mod k - 1" "(a + 1) mod k - 1 < k"
    using False assms pos_mod_sign [of k "a + 1"] pos_mod_bound [of k "a + 1"] by linarith+
  ultimately have "a div k = (a + 1) div k"
    by (rule div_unique_int)
  then show ?thesis using False by simp
qed

lemma mod_shift4: "(y - 1968) mod 4 = (y::int) mod 4"
  using mod_mult_self1 [of "y - 1968" 492 4] by simp

lemma mod_shift100: "(y - 1900) mod 100 = (y::int) mod 100"
  using mod_mult_self1 [of "y - 1900" 19 100] by simp

lemma mod_shift400: "(y - 1600) mod 400 = (y::int) mod 400"
  using mod_mult_self1 [of "y - 1600" 4 400] by simp

lemma DayFromYear_step: "DayFromYear (y + 1) = DayFromYear y + DaysInYear y"
proof -
  have a: "(y + 1 - 1969) div 4 = (y - 1969) div 4 + (if y mod 4 = 0 then 1 else 0)"
    using div_step [of 4 "y - 1969"] mod_shift4 [of y] by (simp add: algebra_simps)
  have b: "(y + 1 - 1901) div 100 = (y - 1901) div 100 + (if y mod 100 = 0 then 1 else 0)"
    using div_step [of 100 "y - 1901"] mod_shift100 [of y] by (simp add: algebra_simps)
  have c: "(y + 1 - 1601) div 400 = (y - 1601) div 400 + (if y mod 400 = 0 then 1 else 0)"
    using div_step [of 400 "y - 1601"] mod_shift400 [of y] by (simp add: algebra_simps)
  have d: "y mod 400 = 0 \<Longrightarrow> y mod 100 = 0"
    using mod_mod_cancel [of 100 400 y] by simp
  have e: "y mod 100 = 0 \<Longrightarrow> y mod 4 = 0"
    using mod_mod_cancel [of 4 100 y] by simp
  show ?thesis
    unfolding DayFromYear_def DaysInYear_def a b c using d e by auto
qed

lemma DaysInYear_pos: "365 \<le> DaysInYear y"
  by (simp add: DaysInYear_def)

text \<open>
  \<^verbatim>\<open>YearFromTime(t)\<close> is the largest year whose first day is not after \<open>t\<close>. It is
  found by counting up from an estimate that is never too large.
\<close>

function yearUp :: "int \<Rightarrow> int \<Rightarrow> int" where
  "yearUp d y = (if DayFromYear (y + 1) \<le> d then yearUp d (y + 1) else y)"
  by pat_completeness auto
termination
proof (relation "measure (\<lambda>(d, y). nat (d - DayFromYear y))")
  show "wf (measure (\<lambda>(d, y). nat (d - DayFromYear y)))" by simp
next
  fix d y :: int
  assume "DayFromYear (y + 1) \<le> d"
  moreover have "DayFromYear y < DayFromYear (y + 1)"
    using DayFromYear_step [of y] DaysInYear_pos [of y] by linarith
  ultimately show "((d, y + 1), (d, y)) \<in> measure (\<lambda>(d, y). nat (d - DayFromYear y))"
    by simp
qed

declare yearUp.simps [simp del]

definition yearEstimate :: "int \<Rightarrow> int" where
  "yearEstimate d = (if 0 \<le> d then 1970 + d div 366 else 1970 + d div 365)"

definition YearFromTime :: "timevalue \<Rightarrow> int" where
  "YearFromTime t = yearUp (Day t) (yearEstimate (Day t))"

definition InLeapYear :: "timevalue \<Rightarrow> int" where
  "InLeapYear t = (if DaysInYear (YearFromTime t) = 366 then 1 else 0)"

definition DayWithinYear :: "timevalue \<Rightarrow> int" where
  "DayWithinYear t = Day t - DayFromYear (YearFromTime t)"

definition MonthFromTime :: "timevalue \<Rightarrow> int" where
  "MonthFromTime t =
     (let d = DayWithinYear t; l = InLeapYear t in
      if d < 31 then 0
      else if d < 59 + l then 1
      else if d < 90 + l then 2
      else if d < 120 + l then 3
      else if d < 151 + l then 4
      else if d < 181 + l then 5
      else if d < 212 + l then 6
      else if d < 243 + l then 7
      else if d < 273 + l then 8
      else if d < 304 + l then 9
      else if d < 334 + l then 10
      else 11)"

definition DateFromTime :: "timevalue \<Rightarrow> int" where
  "DateFromTime t =
     (let d = DayWithinYear t; l = InLeapYear t; m = MonthFromTime t in
      if m = 0 then d + 1
      else if m = 1 then d - 30
      else if m = 2 then d - 58 - l
      else if m = 3 then d - 89 - l
      else if m = 4 then d - 119 - l
      else if m = 5 then d - 150 - l
      else if m = 6 then d - 180 - l
      else if m = 7 then d - 211 - l
      else if m = 8 then d - 242 - l
      else if m = 9 then d - 272 - l
      else if m = 10 then d - 303 - l
      else d - 333 - l)"

definition HourFromTime :: "timevalue \<Rightarrow> int" where
  "HourFromTime t = (t div msPerHour) mod 24"

definition MinFromTime :: "timevalue \<Rightarrow> int" where
  "MinFromTime t = (t div msPerMinute) mod 60"

definition SecFromTime :: "timevalue \<Rightarrow> int" where
  "SecFromTime t = (t div msPerSecond) mod 60"

definition msFromTime :: "timevalue \<Rightarrow> int" where
  "msFromTime t = t mod msPerSecond"

definition MakeTime :: "int \<Rightarrow> int \<Rightarrow> int \<Rightarrow> int \<Rightarrow> int" where
  "MakeTime h m s ms = h * msPerHour + m * msPerMinute + s * msPerSecond + ms"

text \<open>Days from the start of a year to the start of month \<open>mn\<close> (0 = January).\<close>

definition daysBeforeMonth :: "int \<Rightarrow> int \<Rightarrow> int" where
  "daysBeforeMonth mn l =
     (if mn = 0 then 0
      else if mn = 1 then 31
      else if mn = 2 then 59 + l
      else if mn = 3 then 90 + l
      else if mn = 4 then 120 + l
      else if mn = 5 then 151 + l
      else if mn = 6 then 181 + l
      else if mn = 7 then 212 + l
      else if mn = 8 then 243 + l
      else if mn = 9 then 273 + l
      else if mn = 10 then 304 + l
      else 334 + l)"

text \<open>
  \<^verbatim>\<open>MakeDay(year, month, date)\<close>: the day number of the first day of the month
  (months beyond 0..11 carry into the year), plus \<open>date - 1\<close>; a date beyond the
  month's length runs on into the following month.
\<close>

definition MakeDay :: "int \<Rightarrow> int \<Rightarrow> int \<Rightarrow> int" where
  "MakeDay year month date =
     (let ym = year + month div 12; mn = month mod 12 in
      DayFromYear ym + daysBeforeMonth mn (if DaysInYear ym = 366 then 1 else 0) + date - 1)"

definition MakeDate :: "int \<Rightarrow> int \<Rightarrow> timevalue" where
  "MakeDate day time = day * msPerDay + time"


subsection \<open>Local time\<close>

text \<open>
  A time zone gives the offset from UTC, in milliseconds, in force at a UTC instant
  (\<open>offsetAt\<close>) and at a local wall-clock reading (\<open>offsetAtLocal\<close>); the two agree
  for a zone without daylight saving. The zone of the server process is a parameter
  of every method that reads or writes local fields.
\<close>

record zone =
  offsetAt :: "timevalue \<Rightarrow> int"
  offsetAtLocal :: "int \<Rightarrow> int"

definition fixedZone :: "int \<Rightarrow> zone" where
  "fixedZone off = \<lparr>offsetAt = (\<lambda>t. off), offsetAtLocal = (\<lambda>t. off)\<rparr>"

definition LocalTime :: "zone \<Rightarrow> timevalue \<Rightarrow> int" where
  "LocalTime z t = t + offsetAt z t"

definition UTC :: "zone \<Rightarrow> int \<Rightarrow> timevalue" where
  "UTC z t = t - offsetAtLocal z t"

subsection \<open>Date methods\<close>

definition maxTime :: int where "maxTime = 8640000000000000"

definition TimeClip :: "int \<Rightarrow> timevalue option" where
  "TimeClip t = (if \<bar>t\<bar> > maxTime then None else Some t)"

definition getUTCDate :: "timevalue \<Rightarrow> int" where
  "getUTCDate t = DateFromTime t"

definition setUTCDate :: "timevalue \<Rightarrow> int \<Rightarrow> timevalue option" where
  "setUTCDate t dt =
     TimeClip (MakeDate (MakeDay (YearFromTime t) (MonthFromTime t) dt) (TimeWithinDay t))"

definition setUTCHours :: "timevalue \<Rightarrow> int \<Rightarrow> int \<Rightarrow> int \<Rightarrow> int \<Rightarrow> timevalue option" where
  "setUTCHours t h m s ms = TimeClip (MakeDate (Day t) (MakeTime h m s ms))"

definition getDate :: "zone \<Rightarrow> timevalue \<Rightarrow> int" where
  "getDate z t = DateFromTime (LocalTime z t)"

definition setDate :: "zone \<Rightarrow> timevalue \<Rightarrow> int \<Rightarrow> timevalue option" where
  "setDate z t dt =
     (let lt = LocalTime z t in
      TimeClip
        (UTC z (MakeDate (MakeDay (YearFromTime lt) (MonthFromTime lt) dt) (TimeWithinDay lt))))"

definition getHours :: "zone \<Rightarrow> timevalue \<Rightarrow> int" where
  "getHours z t = HourFromTime (LocalTime z t)"

text \<open>
  \<^verbatim>\<open>setHours\<close> is applied below to readings of the clock only, which lie far inside
  the range; its range check is left out.
\<close>

definition setHours :: "zone \<Rightarrow> timevalue \<Rightarrow> int \<Rightarrow> int \<Rightarrow> int \<Rightarrow> int \<Rightarrow> timevalue" where
  "setHours z t h m s ms = UTC z (MakeDate (Day (LocalTime z t)) (MakeTime h m s ms))"

section \<open>The Task model (models/Task.js)\<close>

text \<open>
  The errors that the code raises or passes on. \<open>InvalidDate\<close> is none of them: it
  marks the one outcome that is left open, a save whose hook has computed an Invalid
  Date (see \<open>save\<close>).
\<close>

datatype error =
  ValidationError | CastError | RangeError | StorageError | SendError | InvalidDate

text \<open>
  An ObjectId is kept in its canonical string form. \<open>castId\<close> stands for the
  driver's conversion of a request string to an ObjectId and is \<open>None\<close> for a string
  that is no ObjectId; every method that looks a revision up takes it as a parameter.
  \<open>hexObjectId\<close> is the conversion of 24 hexadecimal digits.
\<close>

type_synonym objectId = string

definition isHexDigit :: "char \<Rightarrow> bool" where
  "isHexDigit c = (c \<in> set ''0123456789abcdefABCDEF'')"

definition lowerHex :: "char \<Rightarrow> char" where
  "lowerHex c =
     (if c = CHR ''A'' then CHR ''a'' else if c = CHR ''B'' then CHR ''b''
      else if c = CHR ''C'' then CHR ''c'' else if c = CHR ''D'' then CHR ''d''
      else if c = CHR ''E'' then CHR ''e'' else if c = CHR ''F'' then CHR ''f'' else c)"

definition hexObjectId :: "string \<Rightarrow> objectId option" where
  "hexObjectId s =
     (if length s = 24 \<and> list_all isHexDigit s then Some (map lowerHex s) else None)"

record revision =
  rev_id :: objectId
  scheduledDate :: timevalue
  status :: string
  sentReminder :: bool
  completedAt :: "timevalue option"

record task =
  task_id :: objectId
  user :: objectId
  title :: string
  task_notes :: string
  completedDate :: timevalue
  revisions :: "revision list"
  isArchived :: bool
  createdAt :: timevalue
  isNew :: bool

text \<open>
  \<^verbatim>\<open>this.revisions.id(objectId)\<close>: the first revision whose \<^verbatim>\<open>_id\<close> is the given
  one; no revision for a string that is no ObjectId.
\<close>

definition revisions_id :: "(string \<Rightarrow> objectId option) \<Rightarrow> revision list \<Rightarrow> string \<Rightarrow> revision option" where
  "revisions_id castId revs rid =
     (case castId rid of
        None \<Rightarrow> None
      | Some oid \<Rightarrow> find (\<lambda>r. rev_id r = oid) revs)"

text \<open>
  The revision found is a reference into the task's array: assigning to its fields
  changes that element and no other.
\<close>

fun modifyFirst :: "('a \<Rightarrow> bool) \<Rightarrow> ('a \<Rightarrow> 'a) \<Rightarrow> 'a list \<Rightarrow> 'a list" where
  "modifyFirst P f [] = []"
| "modifyFirst P f (x # xs) = (if P x then f x # xs else x # modifyFirst P f xs)"

definition modifyRevision :: "(string \<Rightarrow> objectId option) \<Rightarrow> task \<Rightarrow> string \<Rightarrow> (revision \<Rightarrow> revision) \<Rightarrow> task" where
  "modifyRevision castId t rid f =
     (case castId rid of
        None \<Rightarrow> t
      | Some oid \<Rightarrow> t\<lparr>revisions := modifyFirst (\<lambda>r. rev_id r = oid) f (revisions t)\<rparr>)"

text \<open>
  \<^verbatim>\<open>TaskSchema.methods.addDefaultRevisions\<close>; \<^verbatim>\<open>status\<close> takes the schema default.
  The result is \<open>None\<close> when one of the two dates is an Invalid Date: a revision record
  holds valid dates only, and what the driver makes of that assignment is outside the
  model.
\<close>

definition newRevision :: "objectId \<Rightarrow> timevalue \<Rightarrow> revision" where
  "newRevision i d =
     \<lparr>rev_id = i, scheduledDate = d, status = ''pending'', sentReminder = False,
      completedAt = None\<rparr>"

definition addDefaultRevisions :: "zone \<Rightarrow> objectId \<Rightarrow> objectId \<Rightarrow> task \<Rightarrow> task option" where
  "addDefaultRevisions z i1 i2 t =
     (let completedDate = completedDate t in
      case setDate z completedDate (getDate z completedDate + 3) of
        None \<Rightarrow> None
      | Some revision1 \<Rightarrow>
          (case setDate z completedDate (getDate z completedDate + 7) of
             None \<Rightarrow> None
           | Some revision2 \<Rightarrow>
               Some (t\<lparr>revisions := [newRevision i1 revision1, newRevision i2 revision2]\<rparr>)))"

text \<open>
  \<^verbatim>\<open>TaskSchema.methods.updateRevisionStatus\<close>, with the clock reading \<open>now\<close> that
  \<^verbatim>\<open>new Date()\<close> returns. The result is the method's boolean and the task after the
  call.
\<close>

definition updateRevisionStatus ::
  "(string \<Rightarrow> objectId option) \<Rightarrow> timevalue \<Rightarrow> task \<Rightarrow> string \<Rightarrow> string \<Rightarrow> bool \<times> task" where
  "updateRevisionStatus castId now t revisionId st =
     (case revisions_id castId (revisions t) revisionId of
        Some revision \<Rightarrow>
          (True, modifyRevision castId t revisionId
             (\<lambda>r. r\<lparr>status := st,
                      completedAt := (if st = ''done'' then Some now else None)\<rparr>))
      | None \<Rightarrow> (False, t))"

text \<open>
  \<^verbatim>\<open>TaskSchema.methods.postponeRevision\<close> (the method of models/Task.js as it is
  under src/src/models/User.js, lines 453 to 498). \<open>postponeDate\<close> is the Date
  \<^verbatim>\<open>tomorrow\<close> after the two set-calls; a set-call on an Invalid Date leaves it
  invalid. The method then logs \<^verbatim>\<open>tomorrow.toISOString()\<close>, which raises a RangeError
  on an Invalid Date, before it touches the revision.
\<close>

record postponeResult =
  success :: bool
  newDate :: timevalue
  nextInterval :: int

definition postponeDate :: "timevalue \<Rightarrow> timevalue option" where
  "postponeDate d =
     (let currentScheduledDate = d in
      case setUTCDate currentScheduledDate (getUTCDate currentScheduledDate + 1) of
        None \<Rightarrow> None
      | Some tomorrow \<Rightarrow> setUTCHours tomorrow 0 0 0 0)"

definition postponeRevision ::
  "(string \<Rightarrow> objectId option) \<Rightarrow> task \<Rightarrow> string \<Rightarrow> error + postponeResult option \<times> task" where
  "postponeRevision castId t revisionId =
     (case revisions_id castId (revisions t) revisionId of
        None \<Rightarrow> Inr (None, t)
      | Some revision \<Rightarrow>
          (case postponeDate (scheduledDate revision) of
             None \<Rightarrow> Inl RangeError
           | Some tomorrow \<Rightarrow>
               Inr (Some \<lparr>success = True, newDate = tomorrow, nextInterval = 1\<rparr>,
                    modifyRevision castId t revisionId
                      (\<lambda>r. r\<lparr>scheduledDate := tomorrow, status := ''pending''\<rparr>))))"

text \<open>\<^verbatim>\<open>TaskSchema.methods.rescheduleRevision\<close>.\<close>

definition rescheduleRevision :: "(string \<Rightarrow> objectId option) \<Rightarrow> task \<Rightarrow> string \<Rightarrow> timevalue \<Rightarrow> bool \<times> task" where
  "rescheduleRevision castId t revisionId newDate' =
     (case revisions_id castId (revisions t) revisionId of
        Some revision \<Rightarrow>
          (True, modifyRevision castId t revisionId
             (\<lambda>r. r\<lparr>scheduledDate := newDate', status := ''pending''\<rparr>))
      | None \<Rightarrow> (False, t))"


section \<open>Persistence: validation, the pre-save hook and the collection\<close>

text \<open>The enum of \<^verbatim>\<open>RevisionSchema.status\<close>.\<close>

definition statusValues :: "string list" where
  "statusValues = [''pending'', ''done'', ''skipped'', ''postponed'']"

text \<open>The validator of \<^verbatim>\<open>TaskSchema.revisions\<close>.\<close>

definition revisionsValidator :: "task \<Rightarrow> bool" where
  "revisionsValidator t =
     list_all (\<lambda>revision. scheduledDate revision \<ge> completedDate t) (revisions t)"

text \<open>
  Document validation on save: the required and bounded title, the bounded notes, the
  status enum of every revision, and the revisions validator.
\<close>

definition validateTask :: "task \<Rightarrow> bool" where
  "validateTask t =
     (title t \<noteq> [] \<and> length (title t) \<le> 200 \<and> length (task_notes t) \<le> 1000
      \<and> list_all (\<lambda>r. status r \<in> set statusValues) (revisions t)
      \<and> revisionsValidator t)"

text \<open>
  \<^verbatim>\<open>TaskSchema.pre('save')\<close>. \<open>genId\<close> supplies the ObjectIds that new subdocuments
  receive.
\<close>

definition preSave :: "zone \<Rightarrow> (nat \<Rightarrow> objectId) \<Rightarrow> task \<Rightarrow> task option" where
  "preSave z genId t =
     (if isNew t \<and> length (revisions t) = 0
      then addDefaultRevisions z (genId 0) (genId 1) t
      else Some t)"

fun upsert :: "task \<Rightarrow> task list \<Rightarrow> task list" where
  "upsert t [] = [t]"
| "upsert t (x # xs) = (if task_id x = task_id t then t # xs else x # upsert t xs)"

text \<open>
  \<^verbatim>\<open>task.save()\<close>: validation runs first and rejects with a ValidationError, writing
  nothing; then the pre-save hook; then the document is written whole. Where the hook
  has produced an Invalid Date the model stops: that save is given the result
  \<open>InvalidDate\<close>, and nothing below is stated about it.
\<close>

definition save :: "zone \<Rightarrow> (nat \<Rightarrow> objectId) \<Rightarrow> task list \<Rightarrow> task \<Rightarrow> (error + task) \<times> task list" where
  "save z genId store t =
     (if \<not> validateTask t then (Inl ValidationError, store)
      else (case preSave z genId t of
              None \<Rightarrow> (Inl InvalidDate, store)
            | Some hooked \<Rightarrow>
                (let t' = hooked\<lparr>isNew := False\<rparr>
                 in (Inr t', upsert t' store))))"

text \<open>\<^verbatim>\<open>Task.findOne({ _id: req.params.id, user: req.user._id })\<close>.\<close>

definition findOne :: "(string \<Rightarrow> objectId option) \<Rightarrow> task list \<Rightarrow> string \<Rightarrow> objectId \<Rightarrow> error + task option" where
  "findOne castId store tid uid =
     (case castId tid of
        None \<Rightarrow> Inl CastError
      | Some oid \<Rightarrow> Inr (find (\<lambda>t. task_id t = oid \<and> user t = uid) store))"

section \<open>The task controller (controllers/tasksController.js)\<close>

text \<open>
  A handler ends in a JSON response with \<^verbatim>\<open>success: true\<close> (\<open>Success\<close>: status code,
  the task, the postpone information), in one with \<^verbatim>\<open>success: false\<close> (\<open>Failure\<close>:
  status code and error text), or in \<^verbatim>\<open>next(error)\<close>. It returns the response and
  the collection after the request.
\<close>

datatype response =
    Success nat task "postponeResult option"
  | Failure nat string
  | Next error

text \<open>
  The \<^verbatim>\<open>trim: true\<close> setter of \<^verbatim>\<open>title\<close> and \<^verbatim>\<open>notes\<close>: \<^verbatim>\<open>String.prototype.trim\<close>
  on a string of characters below 256, whose white space is the tab, the line feed, the
  vertical tab, the form feed, the carriage return, the space and the no-break space.
\<close>

definition isWhiteSpace :: "char \<Rightarrow> bool" where
  "isWhiteSpace c =
     (c \<in> set [CHR 0x09, CHR 0x0A, CHR 0x0B, CHR 0x0C, CHR 0x0D, CHR 0x20, CHR 0xA0])"

definition trim :: "string \<Rightarrow> string" where
  "trim s = rev (dropWhile isWhiteSpace (rev (dropWhile isWhiteSpace s)))"

definition enumerate_from0 :: "'a list \<Rightarrow> (nat \<times> 'a) list" where
  "enumerate_from0 xs = zip [0 ..< length xs] xs"

definition createTask ::
  "zone \<Rightarrow> (nat \<Rightarrow> objectId) \<Rightarrow> objectId \<Rightarrow> timevalue \<Rightarrow> task list \<Rightarrow> objectId \<Rightarrow>
   string \<Rightarrow> string \<Rightarrow> timevalue \<Rightarrow> timevalue list option \<Rightarrow> response \<times> task list" where
  "createTask z genId newId now store uid title' notes' completedDate' revisions' =
     (let task0 = \<lparr>task_id = newId, user = uid, title = trim title',
                    task_notes = trim notes', completedDate = completedDate',
                    revisions = [], isArchived = False, createdAt = now, isNew = True\<rparr>;
          task1 = (case revisions' of
                     Some dates \<Rightarrow>
                       task0\<lparr>revisions :=
                         map (\<lambda>(k, date). newRevision (genId k) date) (enumerate_from0 dates)\<rparr>
                   | None \<Rightarrow> task0)
      in case save z genId store task1 of
           (Inr savedTask, store') \<Rightarrow> (Success 201 savedTask None, store')
         | (Inl e, store') \<Rightarrow> (Next e, store'))"

definition markRevisionComplete ::
  "(string \<Rightarrow> objectId option) \<Rightarrow> zone \<Rightarrow> (nat \<Rightarrow> objectId) \<Rightarrow> timevalue \<Rightarrow> task list \<Rightarrow>
   objectId \<Rightarrow> string \<Rightarrow> string \<Rightarrow> string option \<Rightarrow> response \<times> task list" where
  "markRevisionComplete castId z genId now store uid tid revisionId st =
     (case findOne castId store tid uid of
        Inl e \<Rightarrow> (Next e, store)
      | Inr None \<Rightarrow> (Failure 404 ''Task not found'', store)
      | Inr (Some task) \<Rightarrow>
          if st = Some ''postponed'' then
            (case postponeRevision castId task revisionId of
               Inl e \<Rightarrow> (Next e, store)
             | Inr (None, task') \<Rightarrow> (Failure 404 ''Revision not found or postpone failed'', store)
             | Inr (Some result, task') \<Rightarrow>
                 if \<not> success result
                 then (Failure 404 ''Revision not found or postpone failed'', store)
                 else (case save z genId store task' of
                         (Inl e, store') \<Rightarrow> (Failure 500 ''Failed to save postponed revision'', store')
                       | (Inr savedTask, store') \<Rightarrow> (Success 200 savedTask (Some result), store')))
          else
            (case updateRevisionStatus castId now task revisionId
                    (case st of None \<Rightarrow> ''done'' | Some v \<Rightarrow> if v = [] then ''done'' else v) of
               (False, task') \<Rightarrow> (Failure 404 ''Revision not found'', store)
             | (True, task') \<Rightarrow>
                 (case save z genId store task' of
                    (Inl e, store') \<Rightarrow> (Next e, store')
                  | (Inr savedTask, store') \<Rightarrow> (Success 200 savedTask None, store'))))"

section \<open>Timezone utilities (utils/timezoneUtils.js)\<close>

text \<open>
  \<^verbatim>\<open>date.toLocaleString('en-US', { timeZone })\<close> looks the identifier up in the zone
  database of the runtime, \<open>tzdb\<close>: an unknown identifier raises a RangeError, a known
  one gives the offset in force at each instant. The string it returns
  (\<^verbatim>\<open>"6/15/2024, 12:00:00 PM"\<close>) carries the wall-clock fields of the instant in that
  zone, down to the second; it is kept as the record of those fields.
\<close>

type_synonym tzdb = "string \<Rightarrow> (timevalue \<Rightarrow> int) option"

record wallclock =
  wcYear :: int
  wcMonth :: int
  wcDay :: int
  wcHour :: int
  wcMinute :: int
  wcSecond :: int

definition toLocaleString :: "tzdb \<Rightarrow> timevalue \<Rightarrow> string \<Rightarrow> error + wallclock" where
  "toLocaleString db t timeZone =
     (case db timeZone of
        None \<Rightarrow> Inl RangeError
      | Some off \<Rightarrow>
          (let lt = t + off t in
           Inr \<lparr>wcYear = YearFromTime lt, wcMonth = MonthFromTime lt + 1, wcDay = DateFromTime lt,
                wcHour = HourFromTime lt, wcMinute = MinFromTime lt, wcSecond = SecFromTime lt\<rparr>))"

text \<open>
  \<^verbatim>\<open>new Date(string)\<close> on such a string reads the fields as local time of the server
  process, whose zone is \<open>z\<close>.
\<close>

definition parseDate :: "zone \<Rightarrow> wallclock \<Rightarrow> timevalue" where
  "parseDate z w =
     UTC z (MakeDate (MakeDay (wcYear w) (wcMonth w - 1) (wcDay w))
                     (MakeTime (wcHour w) (wcMinute w) (wcSecond w) 0))"

definition getCurrentTimeInTimezone :: "zone \<Rightarrow> tzdb \<Rightarrow> timevalue \<Rightarrow> string \<Rightarrow> error + timevalue" where
  "getCurrentTimeInTimezone z db now timezone =
     (case toLocaleString db now timezone of
        Inl e \<Rightarrow> Inl e
      | Inr s \<Rightarrow> Inr (parseDate z s))"

definition getDayBoundsInTimezone ::
  "zone \<Rightarrow> tzdb \<Rightarrow> timevalue \<Rightarrow> string \<Rightarrow> error + (timevalue \<times> timevalue)" where
  "getDayBoundsInTimezone z db date timezone =
     (let targetDate = date in
      case toLocaleString db targetDate timezone of
        Inl e \<Rightarrow> Inl e
      | Inr s \<Rightarrow>
          (let userDate = parseDate z s;
               startOfDay = setHours z userDate 0 0 0 0;
               endOfDay = setHours z userDate 23 59 59 999
           in Inr (startOfDay, endOfDay)))"

definition isTargetHourInTimezone :: "zone \<Rightarrow> tzdb \<Rightarrow> timevalue \<Rightarrow> int \<Rightarrow> string \<Rightarrow> error + bool" where
  "isTargetHourInTimezone z db now targetHour timezone =
     (case getCurrentTimeInTimezone z db now timezone of
        Inl e \<Rightarrow> Inl e
      | Inr currentTime \<Rightarrow> Inr (getHours z currentTime = targetHour))"

section \<open>The reminder job (services/cronService.js)\<close>

text \<open>
  What the job reads from outside: the clock, the zone of the server process, the zone
  database, the task collection, and for which user the aggregation and for which
  address the mail transport fail. One clock reading serves a whole run.
\<close>

record env =
  clock :: timevalue
  serverZone :: zone
  zones :: tzdb
  taskCollection :: "task list"
  aggregateFails :: "objectId \<Rightarrow> bool"
  sendFails :: "string \<Rightarrow> bool"

record userDoc =
  user_id :: objectId
  email :: string
  timezone :: string
  isVerified :: bool
  emailNotifications :: bool

record dueRevision =
  taskId :: objectId
  taskTitle :: string
  taskDescription :: string
  taskCreatedAt :: timevalue
  revisionId :: objectId
  revisionDay :: int
  dueDate :: timevalue
  isFirstRevision :: bool

text \<open>
  The aggregation pipeline: \<^verbatim>\<open>$match\<close> on owner and archive flag, \<^verbatim>\<open>$unwind\<close> of
  the revisions, \<^verbatim>\<open>$match\<close> on scheduled date and status.
\<close>

definition unwind :: "task list \<Rightarrow> (task \<times> revision) list" where
  "unwind ts = concat (map (\<lambda>t. map (\<lambda>r. (t, r)) (revisions t)) ts)"

definition aggregateDue :: "task list \<Rightarrow> objectId \<Rightarrow> timevalue \<Rightarrow> timevalue \<Rightarrow> (task \<times> revision) list" where
  "aggregateDue ts userId startOfDay endOfDay =
     filter (\<lambda>(t, r). startOfDay \<le> scheduledDate r \<and> scheduledDate r \<le> endOfDay
                       \<and> status r = ''pending'')
       (unwind (filter (\<lambda>t. user t = userId \<and> isArchived t = False) ts))"

text \<open>The body of the \<^verbatim>\<open>map\<close> callback in \<^verbatim>\<open>getTodaysRevisions\<close>.\<close>

definition daysDiff :: "timevalue \<Rightarrow> timevalue \<Rightarrow> int" where
  "daysDiff completedDate' revisionDate =
     \<lceil>real_of_int (revisionDate - completedDate') / real_of_int (1000 * 60 * 60 * 24)\<rceil>"

definition toDueRevision :: "task \<times> revision \<Rightarrow> dueRevision" where
  "toDueRevision item =
     (let completedDate' = completedDate (fst item);
          revisionDate = scheduledDate (snd item);
          daysDiff' = daysDiff completedDate' revisionDate;
          revisionDay' =
            (if daysDiff' \<le> 3 then 1
             else if daysDiff' \<le> 7 then 2
             else if daysDiff' \<le> 14 then 3
             else if daysDiff' \<le> 30 then 4
             else 5)
      in \<lparr>taskId = task_id (fst item), taskTitle = title (fst item),
           taskDescription = task_notes (fst item), taskCreatedAt = createdAt (fst item),
           revisionId = rev_id (snd item), revisionDay = revisionDay',
           dueDate = scheduledDate (snd item), isFirstRevision = (revisionDay' = 1)\<rparr>)"

text \<open>
  \<^verbatim>\<open>getTodaysRevisions\<close>: \<open>todaysRevisionsTry\<close> is the body of its \<^verbatim>\<open>try\<close> block, and
  the \<^verbatim>\<open>catch\<close> turns every error into the empty list.
\<close>

definition todaysRevisionsTry :: "env \<Rightarrow> objectId \<Rightarrow> string \<Rightarrow> error + dueRevision list" where
  "todaysRevisionsTry e userId timezone' =
     (case getDayBoundsInTimezone (serverZone e) (zones e) (clock e) timezone' of
        Inl err \<Rightarrow> Inl err
      | Inr (startOfDay, endOfDay) \<Rightarrow>
          if aggregateFails e userId then Inl StorageError
          else Inr (map toDueRevision
                      (aggregateDue (taskCollection e) userId startOfDay endOfDay)))"

definition getTodaysRevisions :: "env \<Rightarrow> objectId \<Rightarrow> string \<Rightarrow> dueRevision list" where
  "getTodaysRevisions e userId timezone' =
     (case todaysRevisionsTry e userId timezone' of
        Inr todaysRevisions \<Rightarrow> todaysRevisions
      | Inl err \<Rightarrow> [])"

text \<open>
  \<^verbatim>\<open>sendDailyRevisionReminder\<close> (services/emailService.js) rethrows a transport
  failure.
\<close>

definition sendDailyRevisionReminder :: "env \<Rightarrow> string \<Rightarrow> string \<Rightarrow> dueRevision list \<Rightarrow> error + unit" where
  "sendDailyRevisionReminder e email' name revs =
     (if sendFails e email' then Inl SendError else Inr ())"

text \<open>
  \<^verbatim>\<open>sendDailyReminders\<close>. The state of a run is its two counters and the mails handed
  to the transport, in order. \<open>processUser\<close> is the body of the loop with its
  \<^verbatim>\<open>try\<close>/\<^verbatim>\<open>catch\<close>.
\<close>

record runState =
  remindersSent :: nat
  errors :: nat
  outbox :: "(string \<times> string \<times> dueRevision list) list"

definition initialRun :: runState where
  "initialRun = \<lparr>remindersSent = 0, errors = 0, outbox = []\<rparr>"

text \<open>\<^verbatim>\<open>user.timezone || 'Asia/Kolkata'\<close>, and \<^verbatim>\<open>user.email.split('@')[0]\<close>.\<close>

definition userTimezone :: "userDoc \<Rightarrow> string" where
  "userTimezone u = (if timezone u = [] then ''Asia/Kolkata'' else timezone u)"

definition userName :: "userDoc \<Rightarrow> string" where
  "userName u = takeWhile (\<lambda>c. c \<noteq> CHR ''@'') (email u)"

definition processUser :: "env \<Rightarrow> runState \<Rightarrow> userDoc \<Rightarrow> runState" where
  "processUser e st u =
     (let userTimezone = userTimezone u in
      case isTargetHourInTimezone (serverZone e) (zones e) (clock e) 6 userTimezone of
        Inl userError \<Rightarrow> st\<lparr>errors := errors st + 1\<rparr>
      | Inr False \<Rightarrow> st
      | Inr True \<Rightarrow>
          (let todaysRevisions = getTodaysRevisions e (user_id u) userTimezone in
           if length todaysRevisions = 0 then st
           else
             (case sendDailyRevisionReminder e (email u) (userName u) todaysRevisions of
                Inl userError \<Rightarrow> st\<lparr>errors := errors st + 1\<rparr>
              | Inr _ \<Rightarrow>
                  st\<lparr>remindersSent := remindersSent st + 1,
                     outbox := outbox st @ [(email u, userName u, todaysRevisions)]\<rparr>)))"

definition runUsers :: "env \<Rightarrow> runState \<Rightarrow> userDoc list \<Rightarrow> runState" where
  "runUsers e st us = foldl (processUser e) st us"


section \<open>Reference definitions and example data\<close>

text \<open>
  The specification's wording of the postponed date: UTC midnight of the day of \<open>d\<close>,
  plus one day. It is compared with \<open>postponeDate\<close>, which follows the code.
\<close>

definition startOfUTCDay :: "timevalue \<Rightarrow> timevalue" where
  "startOfUTCDay d = d - d mod msPerDay"

text \<open>
  The specification's wording of the day bounds, for a zone whose offset at the instant
  is \<open>off\<close>: local 00:00:00.000 and local 23:59:59.999 of the local calendar date that
  contains the instant, as instants. It is compared with \<open>getDayBoundsInTimezone\<close>,
  which follows the code.
\<close>

definition localDayBounds :: "int \<Rightarrow> timevalue \<Rightarrow> timevalue \<times> timevalue" where
  "localDayBounds off t =
     (Day (t + off) * msPerDay - off, Day (t + off) * msPerDay + (msPerDay - 1) - off)"

text \<open>
  The wording of the ordinal in the specification: the whole days that have elapsed
  between \<open>completedDate\<close> and \<open>scheduledDate\<close>, and the bucket of a number of days.
  They are compared with \<open>toDueRevision\<close>, which follows the code.
\<close>

definition elapsedWholeDays :: "timevalue \<Rightarrow> timevalue \<Rightarrow> int" where
  "elapsedWholeDays completed scheduled = (scheduled - completed) div msPerDay"

definition ordinalBucket :: "int \<Rightarrow> int" where
  "ordinalBucket n =
     (if n \<le> 3 then 1 else if n \<le> 7 then 2 else if n \<le> 14 then 3
      else if n \<le> 30 then 4 else 5)"

text \<open>
  A stored task completed on 2024-01-07T00:00:00Z whose revisions are due on
  2024-01-10T00:00:00Z and 2024-01-14T00:00:00Z, and its owner.
\<close>

definition aliceId :: objectId where
  "aliceId = ''64b7f0c2a1d3e4f5a6b7c8aa''"

definition jan10Revision :: revision where
  "jan10Revision =
     \<lparr>rev_id = ''64b7f0c2a1d3e4f5a6b7c8d1'', scheduledDate = 1704844800000,
      status = ''pending'', sentReminder = False, completedAt = None\<rparr>"

definition jan14Revision :: revision where
  "jan14Revision =
     \<lparr>rev_id = ''64b7f0c2a1d3e4f5a6b7c8d2'', scheduledDate = 1705190400000,
      status = ''pending'', sentReminder = False, completedAt = None\<rparr>"

definition graphsTask :: task where
  "graphsTask =
     \<lparr>task_id = ''64b7f0c2a1d3e4f5a6b7c8d0'', user = aliceId,
      title = ''Graphs'', task_notes = [], completedDate = 1704585600000,
      revisions = [jan10Revision, jan14Revision],
      isArchived = False, createdAt = 1704585600000, isNew = False\<rparr>"

definition seqId :: "nat \<Rightarrow> objectId" where
  "seqId n = replicate 23 CHR ''0'' @ [''0123456789abcdef'' ! (n mod 16)]"

text \<open>
  A stored task with one revision, rescheduled to the last valid Date,
  +275760-09-13T00:00:00.000Z.
\<close>

definition lastDayRevision :: revision where
  "lastDayRevision =
     \<lparr>rev_id = ''64b7f0c2a1d3e4f5a6b7c8f1'', scheduledDate = 8640000000000000,
      status = ''pending'', sentReminder = False, completedAt = None\<rparr>"

definition lastDayTask :: task where
  "lastDayTask =
     \<lparr>task_id = ''64b7f0c2a1d3e4f5a6b7c8f0'', user = aliceId,
      title = ''Heaps'', task_notes = [], completedDate = 1704585600000,
      revisions = [lastDayRevision],
      isArchived = False, createdAt = 1704585600000, isNew = False\<rparr>"


text \<open>
  A zone database holding three zones without daylight saving: India (UTC+5:30), UTC
  and Japan (UTC+9).
\<close>

definition fixedOffsetZones :: tzdb where
  "fixedOffsetZones tz =
     (if tz = ''Asia/Kolkata'' then Some (\<lambda>t. 19800000)
      else if tz = ''UTC'' then Some (\<lambda>t. 0)
      else if tz = ''Asia/Tokyo'' then Some (\<lambda>t. 32400000)
      else None)"

text \<open>
  Two users with one task each, both with a pending revision at 2024-01-10T00:00:00Z,
  and a run at 2024-01-10T00:45:00Z (06:15 in India) on a server whose zone is UTC.
\<close>

definition bobId :: objectId where
  "bobId = ''64b7f0c2a1d3e4f5a6b7c8bb''"

definition treesTask :: task where
  "treesTask =
     \<lparr>task_id = ''64b7f0c2a1d3e4f5a6b7c8e0'', user = bobId,
      title = ''Trees'', task_notes = ''AVL'', completedDate = 1704240000000,
      revisions = [\<lparr>rev_id = ''64b7f0c2a1d3e4f5a6b7c8e1'', scheduledDate = 1704844800000,
                     status = ''pending'', sentReminder = False, completedAt = None\<rparr>],
      isArchived = False, createdAt = 1704240000000, isNew = False\<rparr>"

definition aliceUser :: userDoc where
  "aliceUser =
     \<lparr>user_id = aliceId, email = ''alice@example.com'', timezone = ''Asia/Kolkata'',
      isVerified = True, emailNotifications = True\<rparr>"

definition bobUser :: userDoc where
  "bobUser =
     \<lparr>user_id = bobId, email = ''bob@example.com'', timezone = [],
      isVerified = True, emailNotifications = True\<rparr>"

definition morningEnv :: env where
  "morningEnv =
     \<lparr>clock = 1704847500000, serverZone = fixedZone 0, zones = fixedOffsetZones,
      taskCollection = [graphsTask, treesTask],
      aggregateFails = (\<lambda>u. False), sendFails = (\<lambda>a. False)\<rparr>"

section \<open>Calendar arithmetic\<close>

lemma yearUp_upper: "d < DayFromYear (yearUp d y + 1)"
proof (induction d y rule: yearUp.induct)
  case (1 d y)
  show ?case
  proof (cases "DayFromYear (y + 1) \<le> d")
    case True
    with "1.IH" show ?thesis by (subst yearUp.simps) simp
  next
    case False
    then show ?thesis by (subst yearUp.simps) simp
  qed
qed

lemma yearUp_lower: "DayFromYear y \<le> d \<Longrightarrow> DayFromYear (yearUp d y) \<le> d"
proof (induction d y rule: yearUp.induct)
  case (1 d y)
  show ?case
  proof (cases "DayFromYear (y + 1) \<le> d")
    case True
    with "1.IH" show ?thesis by (subst yearUp.simps) simp
  next
    case False
    with "1.prems" show ?thesis by (subst yearUp.simps) simp
  qed
qed

lemma DayFromYear_le_nonneg: "0 \<le> n \<Longrightarrow> DayFromYear (1970 + n) \<le> 366 * n"
proof (induction n rule: int_ge_induct)
  case base
  show ?case by (simp add: DayFromYear_def)
next
  case (step i)
  have "DayFromYear (1970 + (i + 1)) = DayFromYear (1970 + i) + DaysInYear (1970 + i)"
    using DayFromYear_step [of "1970 + i"] by (simp add: add.assoc)
  moreover have "DaysInYear (1970 + i) \<le> 366" by (simp add: DaysInYear_def)
  ultimately show ?case using step by simp
qed

lemma DayFromYear_le_neg: "0 \<le> n \<Longrightarrow> DayFromYear (1970 - n) \<le> - (365 * n)"
proof (induction n rule: int_ge_induct)
  case base
  show ?case by (simp add: DayFromYear_def)
next
  case (step i)
  have "DayFromYear (1970 - (i + 1) + 1) = DayFromYear (1970 - (i + 1)) + DaysInYear (1970 - (i + 1))"
    by (rule DayFromYear_step)
  then have "DayFromYear (1970 - i) = DayFromYear (1970 - (i + 1)) + DaysInYear (1970 - (i + 1))"
    by (simp add: algebra_simps)
  moreover have "365 \<le> DaysInYear (1970 - (i + 1))" by (rule DaysInYear_pos)
  ultimately show ?case using step by simp
qed

lemma yearEstimate_lower: "DayFromYear (yearEstimate d) \<le> d"
proof (cases "0 \<le> d")
  case True
  then have "0 \<le> d div 366" by simp
  from DayFromYear_le_nonneg [OF this] have "DayFromYear (1970 + d div 366) \<le> 366 * (d div 366)" .
  also have "\<dots> \<le> d"
    using pos_mod_sign [of 366 d] mult_div_mod_eq [of 366 d] by linarith
  finally show ?thesis using True by (simp add: yearEstimate_def)
next
  case False
  then have "d div 365 \<le> 0"
    using pos_mod_sign [of 365 d] mult_div_mod_eq [of 365 d] by linarith
  then have "0 \<le> - (d div 365)" by simp
  from DayFromYear_le_neg [OF this] have "DayFromYear (1970 + d div 365) \<le> 365 * (d div 365)"
    by simp
  also have "\<dots> \<le> d"
    using pos_mod_sign [of 365 d] mult_div_mod_eq [of 365 d] by linarith
  finally show ?thesis using False by (simp add: yearEstimate_def)
qed

text \<open>
  \<open>YearFromTime\<close> meets its specification: the year it returns starts on or before the
  day of \<open>t\<close>, and the next year starts after it.
\<close>

lemma YearFromTime_Day:
  "DayFromYear (YearFromTime t) \<le> Day t \<and> Day t < DayFromYear (YearFromTime t + 1)"
  unfolding YearFromTime_def using yearUp_lower [OF yearEstimate_lower] yearUp_upper by blast

lemma DayWithinYear_range:
  "0 \<le> DayWithinYear t \<and> DayWithinYear t < DaysInYear (YearFromTime t)"
  using YearFromTime_Day [of t] DayFromYear_step [of "YearFromTime t"]
  by (simp add: DayWithinYear_def)

lemma calendar_examples:
  "YearFromTime 1704844800000 = 2024 \<and> MonthFromTime 1704844800000 = 0
   \<and> DateFromTime 1704844800000 = 10 \<and> HourFromTime 1704844800000 = 0"
  "YearFromTime 1709251199999 = 2024 \<and> MonthFromTime 1709251199999 = 1
   \<and> DateFromTime 1709251199999 = 29 \<and> HourFromTime 1709251199999 = 23"
  "YearFromTime (- 1) = 1969 \<and> MonthFromTime (- 1) = 11 \<and> DateFromTime (- 1) = 31"
  "MakeDate (MakeDay 2024 5 15) (MakeTime 6 30 0 0) = 1718433000000"
  by code_simp+

lemma MonthFromTime_range: "0 \<le> MonthFromTime t \<and> MonthFromTime t \<le> 11"
  by (simp add: MonthFromTime_def Let_def)

lemma DateFromTime_daysBeforeMonth:
  "DateFromTime t = DayWithinYear t - daysBeforeMonth (MonthFromTime t) (InLeapYear t) + 1"
  by (simp add: DateFromTime_def MonthFromTime_def daysBeforeMonth_def Let_def)

lemma MakeDay_in_month:
  "MakeDay (YearFromTime t) (MonthFromTime t) dt = Day t + (dt - DateFromTime t)"
proof -
  have m: "MonthFromTime t div 12 = 0" "MonthFromTime t mod 12 = MonthFromTime t"
    using MonthFromTime_range [of t] by simp_all
  show ?thesis
    unfolding MakeDay_def Let_def m DateFromTime_daysBeforeMonth
    by (simp add: DayWithinYear_def InLeapYear_def)
qed

lemma MakeDate_Day_TimeWithinDay: "MakeDate (Day t) (TimeWithinDay t) = t"
  by (simp add: MakeDate_def Day_def TimeWithinDay_def)

lemma setUTCDate_advance: "setUTCDate t (getUTCDate t + k) = TimeClip (t + k * msPerDay)"
proof -
  have "MakeDate (MakeDay (YearFromTime t) (MonthFromTime t) (DateFromTime t + k))
          (TimeWithinDay t) = MakeDate (Day t + k) (TimeWithinDay t)"
    by (simp add: MakeDay_in_month)
  also have "\<dots> = MakeDate (Day t) (TimeWithinDay t) + k * msPerDay"
    by (simp add: MakeDate_def algebra_simps)
  finally show ?thesis
    by (simp add: setUTCDate_def getUTCDate_def MakeDate_Day_TimeWithinDay)
qed

lemma Day_add_days: "Day (t + k * msPerDay) = Day t + k"
  by (simp add: Day_def msPerDay_def)

lemma setUTCHours_midnight: "setUTCHours t 0 0 0 0 = TimeClip (Day t * msPerDay)"
  by (simp add: setUTCHours_def MakeDate_def MakeTime_def)

lemma Day_times_msPerDay_le: "Day t * msPerDay \<le> t"
  using pos_mod_sign [of msPerDay t] mult_div_mod_eq [of msPerDay t]
  by (simp add: Day_def msPerDay_def)

lemma Day_times_msPerDay_ge: "- maxTime \<le> t \<Longrightarrow> - maxTime \<le> Day t * msPerDay"
proof -
  assume "- maxTime \<le> t"
  then have "(- maxTime) div msPerDay \<le> t div msPerDay"
    by (intro zdiv_mono1) (simp_all add: msPerDay_def)
  moreover have "(- maxTime) div msPerDay = - 100000000"
    by (simp add: maxTime_def msPerDay_def)
  ultimately have "- 100000000 \<le> Day t" by (simp add: Day_def)
  then show ?thesis by (simp add: maxTime_def msPerDay_def)
qed

text \<open>
  The Date after the two set-calls of \<open>postponeDate\<close>: the next UTC midnight when one day
  after \<open>d\<close> is still a valid Date, and an Invalid Date otherwise.
\<close>

lemma postponeDate_in_range:
  assumes "- maxTime \<le> d" "d + msPerDay \<le> maxTime"
  shows "postponeDate d = Some (Day d * msPerDay + msPerDay)"
proof -
  have "\<bar>d + msPerDay\<bar> \<le> maxTime"
    using assms by (simp add: msPerDay_def)
  then have a: "setUTCDate d (getUTCDate d + 1) = Some (d + msPerDay)"
    using setUTCDate_advance [of d 1] by (simp add: TimeClip_def)
  have e: "Day (d + msPerDay) * msPerDay = Day d * msPerDay + msPerDay"
    using Day_add_days [of d 1] by (simp add: algebra_simps)
  have "Day (d + msPerDay) * msPerDay \<le> d + msPerDay"
    by (rule Day_times_msPerDay_le)
  moreover have "- maxTime \<le> Day (d + msPerDay) * msPerDay"
    using assms(1) by (intro Day_times_msPerDay_ge) (simp add: msPerDay_def)
  ultimately have "\<bar>Day (d + msPerDay) * msPerDay\<bar> \<le> maxTime"
    using assms(2) by linarith
  then have b: "setUTCHours (d + msPerDay) 0 0 0 0 = Some (Day d * msPerDay + msPerDay)"
    unfolding setUTCHours_midnight by (simp add: TimeClip_def e)
  show ?thesis
    unfolding postponeDate_def Let_def a using b by simp
qed

lemma postponeDate_out_of_range:
  assumes "maxTime < d + msPerDay"
  shows "postponeDate d = None"
proof -
  have "maxTime < \<bar>d + msPerDay\<bar>"
    using assms by linarith
  then have "setUTCDate d (getUTCDate d + 1) = None"
    using setUTCDate_advance [of d 1] by (simp add: TimeClip_def)
  then show ?thesis
    by (simp add: postponeDate_def Let_def)
qed

lemma startOfUTCDay_Day: "startOfUTCDay d = Day d * msPerDay"
  by (simp add: startOfUTCDay_def Day_def minus_mod_eq_div_mult)

lemma startOfUTCDay_next_gt: "d < startOfUTCDay d + msPerDay"
  using pos_mod_bound [of msPerDay d] by (simp add: startOfUTCDay_def msPerDay_def)

section \<open>Looking a revision up and changing it\<close>

lemma find_Some_split:
  "find P xs = Some r \<Longrightarrow> \<exists>ys zs. xs = ys @ r # zs \<and> P r \<and> find P ys = None"
proof (induction xs)
  case Nil
  then show ?case by simp
next
  case (Cons x xs)
  show ?case
  proof (cases "P x")
    case True
    with Cons.prems have "x = r" by simp
    with True have "x # xs = [] @ r # xs \<and> P r \<and> find P [] = None" by simp
    then show ?thesis by blast
  next
    case False
    with Cons.prems have "find P xs = Some r" by simp
    from Cons.IH [OF this] obtain ys zs where "xs = ys @ r # zs" "P r" "find P ys = None"
      by blast
    with False have "x # xs = (x # ys) @ r # zs \<and> P r \<and> find P (x # ys) = None" by simp
    then show ?thesis by blast
  qed
qed

lemma modifyFirst_split:
  "find P ys = None \<Longrightarrow> P r \<Longrightarrow> modifyFirst P f (ys @ r # zs) = ys @ f r # zs"
  by (induction ys) (auto split: if_splits)

lemma modifyFirst_none: "find P xs = None \<Longrightarrow> modifyFirst P f xs = xs"
  by (induction xs) (auto split: if_splits)

lemma find_at_split:
  "find P ys = None \<Longrightarrow> P r \<Longrightarrow> find P (ys @ r # zs) = Some r"
  by (induction ys) (auto split: if_splits)

lemma revisions_id_SomeD:
  assumes "revisions_id castId revs rid = Some r"
  shows "\<exists>oid ys zs. castId rid = Some oid \<and> revs = ys @ r # zs \<and> rev_id r = oid
           \<and> find (\<lambda>x. rev_id x = oid) ys = None"
proof -
  from assms obtain oid where c: "castId rid = Some oid"
    and f: "find (\<lambda>x. rev_id x = oid) revs = Some r"
    by (auto simp: revisions_id_def split: option.splits)
  from find_Some_split [OF f] c show ?thesis by blast
qed

lemma revisions_id_found:
  assumes "castId rid = Some oid" "revs = ys @ r # zs" "rev_id r = oid"
    "find (\<lambda>x. rev_id x = oid) ys = None"
  shows "revisions_id castId revs rid = Some r"
  using assms by (simp add: revisions_id_def find_at_split)

lemma modifyRevision_found:
  assumes "castId rid = Some oid" "revisions t = ys @ r # zs" "rev_id r = oid"
    "find (\<lambda>x. rev_id x = oid) ys = None"
  shows "modifyRevision castId t rid f = t\<lparr>revisions := ys @ f r # zs\<rparr>"
  using assms by (simp add: modifyRevision_def modifyFirst_split)

lemma save_valid_existing:
  assumes "validateTask t" "revisions t \<noteq> []"
  shows "save z genId store t = (Inr (t\<lparr>isNew := False\<rparr>), upsert (t\<lparr>isNew := False\<rparr>) store)"
  using assms by (simp add: save_def preSave_def Let_def)

section \<open>Postponing a revision\<close>

lemma postponeRevision_found:
  assumes "castId rid = Some oid" "revisions t = ys @ r # zs" "rev_id r = oid"
    "find (\<lambda>x. rev_id x = oid) ys = None"
    "- maxTime \<le> scheduledDate r" "scheduledDate r + msPerDay \<le> maxTime"
  shows "postponeRevision castId t rid =
           Inr (Some \<lparr>success = True, newDate = startOfUTCDay (scheduledDate r) + msPerDay,
                       nextInterval = 1\<rparr>,
                t\<lparr>revisions := ys @ r\<lparr>scheduledDate := startOfUTCDay (scheduledDate r) + msPerDay,
                                       status := ''pending''\<rparr> # zs\<rparr>)"
  using assms(1-4) postponeDate_in_range [OF assms(5) assms(6)]
  by (simp add: postponeRevision_def revisions_id_def find_at_split modifyRevision_def
      modifyFirst_split startOfUTCDay_Day)

lemma postponeRevision_raises:
  assumes "castId rid = Some oid" "revisions t = ys @ r # zs" "rev_id r = oid"
    "find (\<lambda>x. rev_id x = oid) ys = None"
    "maxTime < scheduledDate r + msPerDay"
  shows "postponeRevision castId t rid = Inl RangeError"
  using assms(1-4) postponeDate_out_of_range [OF assms(5)]
  by (simp add: postponeRevision_def revisions_id_def find_at_split)

lemma validateTask_postponed:
  assumes "validateTask t" "revisions t = ys @ r # zs"
  shows "validateTask (t\<lparr>revisions := ys @ r\<lparr>scheduledDate := startOfUTCDay (scheduledDate r) + msPerDay,
                                   status := ''pending''\<rparr> # zs\<rparr>)"
  using assms startOfUTCDay_next_gt [of "scheduledDate r"]
  by (simp add: validateTask_def revisionsValidator_def statusValues_def)

text \<open>
  C1, as stated, does not hold for every scheduled date. \<open>lastDayTask\<close> is a stored,
  valid task whose revision is scheduled at the last valid Date. One day later is no
  Date: postponing that revision raises a RangeError, the request ends in
  \<^verbatim>\<open>next(error)\<close>, and the stored task keeps its scheduled date; no new date is set
  or returned.
\<close>

theorem postpone_at_last_valid_date_counterexample:
  "findOne hexObjectId [lastDayTask] ''64b7f0c2a1d3e4f5a6b7c8f0'' aliceId = Inr (Some lastDayTask)
   \<and> validateTask lastDayTask
   \<and> revisions_id hexObjectId (revisions lastDayTask) ''64b7f0c2a1d3e4f5a6b7c8f1''
       = Some lastDayRevision
   \<and> scheduledDate lastDayRevision = maxTime
   \<and> postponeRevision hexObjectId lastDayTask ''64b7f0c2a1d3e4f5a6b7c8f1'' = Inl RangeError
   \<and> markRevisionComplete hexObjectId (fixedZone 0) seqId 1717200000000 [lastDayTask] aliceId
        ''64b7f0c2a1d3e4f5a6b7c8f0'' ''64b7f0c2a1d3e4f5a6b7c8f1'' (Some ''postponed'')
       = (Next RangeError, [lastDayTask])"
proof -
  have k1: "hexObjectId ''64b7f0c2a1d3e4f5a6b7c8f1'' = Some ''64b7f0c2a1d3e4f5a6b7c8f1''"
    by (simp add: hexObjectId_def isHexDigit_def lowerHex_def)
  have k2: "revisions lastDayTask = [] @ lastDayRevision # []"
    by (simp add: lastDayTask_def)
  have k3: "rev_id lastDayRevision = ''64b7f0c2a1d3e4f5a6b7c8f1''"
    by (simp add: lastDayRevision_def)
  have k4: "scheduledDate lastDayRevision = maxTime"
    by (simp add: lastDayRevision_def maxTime_def)
  have k5: "hexObjectId ''64b7f0c2a1d3e4f5a6b7c8f0'' = Some ''64b7f0c2a1d3e4f5a6b7c8f0''"
    by (simp add: hexObjectId_def isHexDigit_def lowerHex_def)
  have k6: "findOne hexObjectId [lastDayTask] ''64b7f0c2a1d3e4f5a6b7c8f0'' aliceId
            = Inr (Some lastDayTask)"
    by (simp add: findOne_def k5) (simp add: lastDayTask_def)
  have k7: "validateTask lastDayTask"
    by (simp add: validateTask_def revisionsValidator_def statusValues_def lastDayTask_def
        lastDayRevision_def)
  have k8: "revisions_id hexObjectId (revisions lastDayTask) ''64b7f0c2a1d3e4f5a6b7c8f1''
            = Some lastDayRevision"
    by (simp add: revisions_id_def k1 k2 k3)
  have "maxTime < scheduledDate lastDayRevision + msPerDay"
    by (simp add: k4 msPerDay_def)
  then have k9: "postponeRevision hexObjectId lastDayTask ''64b7f0c2a1d3e4f5a6b7c8f1''
                 = Inl RangeError"
    using postponeRevision_raises [of hexObjectId "''64b7f0c2a1d3e4f5a6b7c8f1''"
        "''64b7f0c2a1d3e4f5a6b7c8f1''" lastDayTask "[]" lastDayRevision "[]"] k1 k2 k3
    by simp
  have k10: "markRevisionComplete hexObjectId (fixedZone 0) seqId 1717200000000 [lastDayTask]
        aliceId ''64b7f0c2a1d3e4f5a6b7c8f0'' ''64b7f0c2a1d3e4f5a6b7c8f1'' (Some ''postponed'')
       = (Next RangeError, [lastDayTask])"
    by (simp add: markRevisionComplete_def k6 k9)
  from k6 k7 k8 k4 k9 k10 show ?thesis by blast
qed

text \<open>
  C1, amended. Let \<open>r\<close> be the revision that the id \<open>rid\<close> denotes in task \<open>t\<close> (the
  first one with that id) and \<open>d\<close> its scheduled date, a valid Date. When one day after
  \<open>d\<close> is still a valid Date, postponing returns the new date
  \<open>startOfUTCDay d + 1 day\<close> and leaves the task with exactly that revision changed: its
  scheduled date is the new date and its status is pending; through the controller, for
  a stored valid task, the response carries the new date and the changed task is what is
  written. When one day after \<open>d\<close> is beyond the last valid Date, postponing raises a
  RangeError and the controller passes it on, with the collection as it was. In both
  cases the outcome does not depend on the clock reading \<open>now\<close>: two requests that
  differ only in the time they are made give the same response and the same
  collection.
\<close>

theorem postpone_advances_from_scheduled_day:
  assumes "castId rid = Some oid" and "revisions t = ys @ r # zs" and "rev_id r = oid"
    and "find (\<lambda>x. rev_id x = oid) ys = None"
  shows "(- maxTime \<le> scheduledDate r \<and> scheduledDate r + msPerDay \<le> maxTime \<longrightarrow>
            postponeRevision castId t rid =
              Inr (Some \<lparr>success = True, newDate = startOfUTCDay (scheduledDate r) + msPerDay,
                          nextInterval = 1\<rparr>,
                   t\<lparr>revisions := ys @ r\<lparr>scheduledDate := startOfUTCDay (scheduledDate r) + msPerDay,
                                          status := ''pending''\<rparr> # zs\<rparr>)
          \<and> (findOne castId store tid uid = Inr (Some t) \<and> validateTask t \<longrightarrow>
               markRevisionComplete castId z genId now store uid tid rid (Some ''postponed'') =
                 (Success 200
                    (t\<lparr>revisions := ys @ r\<lparr>scheduledDate := startOfUTCDay (scheduledDate r) + msPerDay,
                                            status := ''pending''\<rparr> # zs,
                       isNew := False\<rparr>)
                    (Some \<lparr>success = True, newDate = startOfUTCDay (scheduledDate r) + msPerDay,
                            nextInterval = 1\<rparr>),
                  upsert
                    (t\<lparr>revisions := ys @ r\<lparr>scheduledDate := startOfUTCDay (scheduledDate r) + msPerDay,
                                            status := ''pending''\<rparr> # zs,
                       isNew := False\<rparr>)
                    store)))
       \<and> (maxTime < scheduledDate r + msPerDay \<longrightarrow>
            postponeRevision castId t rid = Inl RangeError
          \<and> (findOne castId store tid uid = Inr (Some t) \<longrightarrow>
               markRevisionComplete castId z genId now store uid tid rid (Some ''postponed'') =
                 (Next RangeError, store)))
       \<and> markRevisionComplete castId z genId now store uid tid rid (Some ''postponed'') =
           markRevisionComplete castId z genId now' store uid tid rid (Some ''postponed'')"
proof -
  let ?d = "startOfUTCDay (scheduledDate r) + msPerDay"
  let ?res = "\<lparr>success = True, newDate = ?d, nextInterval = 1\<rparr>"
  let ?t = "t\<lparr>revisions := ys @ r\<lparr>scheduledDate := ?d, status := ''pending''\<rparr> # zs\<rparr>"
  have p: "postponeRevision castId t rid = Inr (Some ?res, ?t)"
    if "- maxTime \<le> scheduledDate r \<and> scheduledDate r + msPerDay \<le> maxTime"
    using assms that postponeRevision_found [of castId rid oid t ys r zs] by simp
  have c: "markRevisionComplete castId z genId now store uid tid rid (Some ''postponed'')
           = (Success 200 (?t\<lparr>isNew := False\<rparr>) (Some ?res), upsert (?t\<lparr>isNew := False\<rparr>) store)"
    if "- maxTime \<le> scheduledDate r \<and> scheduledDate r + msPerDay \<le> maxTime"
      "findOne castId store tid uid = Inr (Some t) \<and> validateTask t"
  proof -
    have "validateTask ?t"
      using that(2) assms(2) validateTask_postponed [of t ys r zs] by simp
    then have "save z genId store ?t
               = (Inr (?t\<lparr>isNew := False\<rparr>), upsert (?t\<lparr>isNew := False\<rparr>) store)"
      by (intro save_valid_existing) simp_all
    then show ?thesis
      using that(2) p [OF that(1)] by (simp add: markRevisionComplete_def)
  qed
  have q: "postponeRevision castId t rid = Inl RangeError"
    if "maxTime < scheduledDate r + msPerDay"
    using assms that postponeRevision_raises [of castId rid oid t ys r zs] by simp
  have e: "markRevisionComplete castId z genId now store uid tid rid (Some ''postponed'')
           = (Next RangeError, store)"
    if "maxTime < scheduledDate r + msPerDay" "findOne castId store tid uid = Inr (Some t)"
    using that(2) q [OF that(1)] by (simp add: markRevisionComplete_def)
  have n: "markRevisionComplete castId z genId now store uid tid rid (Some ''postponed'') =
           markRevisionComplete castId z genId now' store uid tid rid (Some ''postponed'')"
    by (simp add: markRevisionComplete_def split: sum.splits option.splits)
  from p c q e n show ?thesis by blast
qed

theorem postpone_advances_from_scheduled_day_witness:
  "hexObjectId ''64b7f0c2a1d3e4f5a6b7c8d1'' = Some ''64b7f0c2a1d3e4f5a6b7c8d1''
   \<and> revisions graphsTask = [] @ jan10Revision # [jan14Revision]
   \<and> rev_id jan10Revision = ''64b7f0c2a1d3e4f5a6b7c8d1''
   \<and> find (\<lambda>x. rev_id x = ''64b7f0c2a1d3e4f5a6b7c8d1'') [] = None
   \<and> findOne hexObjectId [graphsTask] ''64b7f0c2a1d3e4f5a6b7c8d0'' aliceId = Inr (Some graphsTask)
   \<and> validateTask graphsTask
   \<and> scheduledDate jan10Revision = 1704844800000
   \<and> - maxTime \<le> scheduledDate jan10Revision
   \<and> scheduledDate jan10Revision + msPerDay \<le> maxTime
   \<and> postponeRevision hexObjectId graphsTask ''64b7f0c2a1d3e4f5a6b7c8d1'' =
       Inr (Some \<lparr>success = True, newDate = 1704931200000, nextInterval = 1\<rparr>,
            graphsTask\<lparr>revisions :=
              [jan10Revision\<lparr>scheduledDate := 1704931200000, status := ''pending''\<rparr>,
               jan14Revision]\<rparr>)
   \<and> markRevisionComplete hexObjectId (fixedZone 0) seqId 1717200000000 [graphsTask] aliceId
        ''64b7f0c2a1d3e4f5a6b7c8d0'' ''64b7f0c2a1d3e4f5a6b7c8d1'' (Some ''postponed'') =
       (Success 200
          (graphsTask\<lparr>revisions :=
             [jan10Revision\<lparr>scheduledDate := 1704931200000, status := ''pending''\<rparr>, jan14Revision],
             isNew := False\<rparr>)
          (Some \<lparr>success = True, newDate = 1704931200000, nextInterval = 1\<rparr>),
        [graphsTask\<lparr>revisions :=
             [jan10Revision\<lparr>scheduledDate := 1704931200000, status := ''pending''\<rparr>, jan14Revision],
             isNew := False\<rparr>])
   \<and> hexObjectId ''64b7f0c2a1d3e4f5a6b7c8f1'' = Some ''64b7f0c2a1d3e4f5a6b7c8f1''
   \<and> revisions lastDayTask = [] @ lastDayRevision # []
   \<and> rev_id lastDayRevision = ''64b7f0c2a1d3e4f5a6b7c8f1''
   \<and> maxTime < scheduledDate lastDayRevision + msPerDay
   \<and> findOne hexObjectId [lastDayTask] ''64b7f0c2a1d3e4f5a6b7c8f0'' aliceId = Inr (Some lastDayTask)
   \<and> markRevisionComplete hexObjectId (fixedZone 0) seqId 1717200000000 [lastDayTask] aliceId
        ''64b7f0c2a1d3e4f5a6b7c8f0'' ''64b7f0c2a1d3e4f5a6b7c8f1'' (Some ''postponed'') =
       (Next RangeError, [lastDayTask])"
proof -
  have h1: "hexObjectId ''64b7f0c2a1d3e4f5a6b7c8d1'' = Some ''64b7f0c2a1d3e4f5a6b7c8d1''"
    by (simp add: hexObjectId_def isHexDigit_def lowerHex_def)
  have h2: "revisions graphsTask = [] @ jan10Revision # [jan14Revision]"
    by (simp add: graphsTask_def)
  have h3: "rev_id jan10Revision = ''64b7f0c2a1d3e4f5a6b7c8d1''"
    by (simp add: jan10Revision_def)
  have h4: "find (\<lambda>x. rev_id x = ''64b7f0c2a1d3e4f5a6b7c8d1'') [] = None"
    by simp
  have h5: "hexObjectId ''64b7f0c2a1d3e4f5a6b7c8d0'' = Some ''64b7f0c2a1d3e4f5a6b7c8d0''"
    by (simp add: hexObjectId_def isHexDigit_def lowerHex_def)
  have h6: "findOne hexObjectId [graphsTask] ''64b7f0c2a1d3e4f5a6b7c8d0'' aliceId
            = Inr (Some graphsTask)"
    by (simp add: findOne_def h5) (simp add: graphsTask_def)
  have h7: "validateTask graphsTask"
    by (simp add: validateTask_def revisionsValidator_def statusValues_def graphsTask_def
        jan10Revision_def jan14Revision_def)
  have h8: "scheduledDate jan10Revision = 1704844800000"
    "- maxTime \<le> scheduledDate jan10Revision \<and> scheduledDate jan10Revision + msPerDay \<le> maxTime"
    by (simp_all add: jan10Revision_def maxTime_def msPerDay_def)
  have d: "startOfUTCDay (scheduledDate jan10Revision) + msPerDay = 1704931200000"
    by (simp add: startOfUTCDay_def msPerDay_def jan10Revision_def)
  have u: "upsert x [graphsTask] = [x]" if "task_id x = task_id graphsTask" for x
    using that by simp
  have A: "postponeRevision hexObjectId graphsTask ''64b7f0c2a1d3e4f5a6b7c8d1'' =
          Inr (Some \<lparr>success = True, newDate = 1704931200000, nextInterval = 1\<rparr>,
               graphsTask\<lparr>revisions :=
                 [jan10Revision\<lparr>scheduledDate := 1704931200000, status := ''pending''\<rparr>,
                  jan14Revision]\<rparr>)
        \<and> markRevisionComplete hexObjectId (fixedZone 0) seqId 1717200000000 [graphsTask] aliceId
            ''64b7f0c2a1d3e4f5a6b7c8d0'' ''64b7f0c2a1d3e4f5a6b7c8d1'' (Some ''postponed'') =
          (Success 200
             (graphsTask\<lparr>revisions :=
                [jan10Revision\<lparr>scheduledDate := 1704931200000, status := ''pending''\<rparr>,
                 jan14Revision], isNew := False\<rparr>)
             (Some \<lparr>success = True, newDate = 1704931200000, nextInterval = 1\<rparr>),
           upsert
             (graphsTask\<lparr>revisions :=
                [jan10Revision\<lparr>scheduledDate := 1704931200000, status := ''pending''\<rparr>,
                 jan14Revision], isNew := False\<rparr>)
             [graphsTask])"
    using postpone_advances_from_scheduled_day
      [where castId = hexObjectId and rid = "''64b7f0c2a1d3e4f5a6b7c8d1''"
         and oid = "''64b7f0c2a1d3e4f5a6b7c8d1''" and t = graphsTask and ys = "[]"
         and r = jan10Revision and zs = "[jan14Revision]" and store = "[graphsTask]"
         and tid = "''64b7f0c2a1d3e4f5a6b7c8d0''" and uid = aliceId and z = "fixedZone 0"
         and genId = seqId and now = 1717200000000 and now' = 1717200000000]
      h1 h2 h3 h4 h6 h7 h8(2)
    by (simp add: d)
  have k1: "hexObjectId ''64b7f0c2a1d3e4f5a6b7c8f1'' = Some ''64b7f0c2a1d3e4f5a6b7c8f1''"
    by (simp add: hexObjectId_def isHexDigit_def lowerHex_def)
  have k2: "revisions lastDayTask = [] @ lastDayRevision # []"
    by (simp add: lastDayTask_def)
  have k3: "rev_id lastDayRevision = ''64b7f0c2a1d3e4f5a6b7c8f1''"
    by (simp add: lastDayRevision_def)
  have k4: "maxTime < scheduledDate lastDayRevision + msPerDay"
    by (simp add: lastDayRevision_def maxTime_def msPerDay_def)
  have k5: "hexObjectId ''64b7f0c2a1d3e4f5a6b7c8f0'' = Some ''64b7f0c2a1d3e4f5a6b7c8f0''"
    by (simp add: hexObjectId_def isHexDigit_def lowerHex_def)
  have k6: "findOne hexObjectId [lastDayTask] ''64b7f0c2a1d3e4f5a6b7c8f0'' aliceId
            = Inr (Some lastDayTask)"
    by (simp add: findOne_def k5) (simp add: lastDayTask_def)
  have B: "markRevisionComplete hexObjectId (fixedZone 0) seqId 1717200000000 [lastDayTask] aliceId
        ''64b7f0c2a1d3e4f5a6b7c8f0'' ''64b7f0c2a1d3e4f5a6b7c8f1'' (Some ''postponed'') =
       (Next RangeError, [lastDayTask])"
    using postpone_advances_from_scheduled_day
      [where castId = hexObjectId and rid = "''64b7f0c2a1d3e4f5a6b7c8f1''"
         and oid = "''64b7f0c2a1d3e4f5a6b7c8f1''" and t = lastDayTask and ys = "[]"
         and r = lastDayRevision and zs = "[]" and store = "[lastDayTask]"
         and tid = "''64b7f0c2a1d3e4f5a6b7c8f0''" and uid = aliceId and z = "fixedZone 0"
         and genId = seqId and now = 1717200000000 and now' = 1717200000000]
      k1 k2 k3 h4 k4 k6
    by simp
  show ?thesis
    using h1 h2 h3 h4 h6 h7 h8 A k1 k2 k3 k4 k6 B by (simp add: u)
qed

section \<open>Default revisions on first save\<close>







section \<open>Status transitions\<close>








section \<open>Transitions on a revision that is not there\<close>

lemma revisions_id_None_iff:
  "revisions_id castId revs rid = None \<longleftrightarrow>
     (case castId rid of None \<Rightarrow> True | Some oid \<Rightarrow> oid \<notin> rev_id ` set revs)"
  by (auto simp: revisions_id_def find_None_iff split: option.splits)

text \<open>
  C9. When the revision id of the request is no ObjectId at all, or is the id of no
  revision of the task, then marking, postponing and rescheduling all return their
  failure value and the task after the call is the task before it. Through the
  controller, for a stored task, the postpone request and every other status request
  answer 404 with a revision-not-found message, and the collection is the one before
  the request.
\<close>

theorem missing_revision_leaves_task_unchanged:
  assumes "castId rid = None \<or> (\<exists>oid. castId rid = Some oid \<and> oid \<notin> rev_id ` set (revisions t))"
  shows "updateRevisionStatus castId now t rid st = (False, t)
       \<and> postponeRevision castId t rid = Inr (None, t)
       \<and> rescheduleRevision castId t rid d = (False, t)
       \<and> (findOne castId store tid uid = Inr (Some t) \<longrightarrow>
            markRevisionComplete castId z genId now store uid tid rid (Some ''postponed'') =
              (Failure 404 ''Revision not found or postpone failed'', store)
          \<and> (req \<noteq> Some ''postponed'' \<longrightarrow>
               markRevisionComplete castId z genId now store uid tid rid req =
                 (Failure 404 ''Revision not found'', store)))"
proof -
  have n: "revisions_id castId (revisions t) rid = None"
    using assms by (auto simp: revisions_id_None_iff)
  have u: "updateRevisionStatus castId now t rid s = (False, t)" for s
    by (simp add: updateRevisionStatus_def n)
  have p: "postponeRevision castId t rid = Inr (None, t)"
    by (simp add: postponeRevision_def n)
  have r: "rescheduleRevision castId t rid d = (False, t)"
    by (simp add: rescheduleRevision_def n)
  have c: "markRevisionComplete castId z genId now store uid tid rid (Some ''postponed'') =
              (Failure 404 ''Revision not found or postpone failed'', store)
          \<and> (req \<noteq> Some ''postponed'' \<longrightarrow>
               markRevisionComplete castId z genId now store uid tid rid req =
                 (Failure 404 ''Revision not found'', store))"
    if "findOne castId store tid uid = Inr (Some t)"
    using that p u by (simp add: markRevisionComplete_def)
  from u [of st] p r c show ?thesis by blast
qed

theorem missing_revision_leaves_task_unchanged_witness:
  "(hexObjectId ''not-an-id'' = None
     \<or> (\<exists>oid. hexObjectId ''not-an-id'' = Some oid \<and> oid \<notin> rev_id ` set (revisions graphsTask)))
   \<and> (hexObjectId ''64b7f0c2a1d3e4f5a6b7c8ff'' = None
     \<or> (\<exists>oid. hexObjectId ''64b7f0c2a1d3e4f5a6b7c8ff'' = Some oid
            \<and> oid \<notin> rev_id ` set (revisions graphsTask)))
   \<and> findOne hexObjectId [graphsTask] ''64b7f0c2a1d3e4f5a6b7c8d0'' aliceId = Inr (Some graphsTask)
   \<and> Some ''done'' \<noteq> Some ''postponed''
   \<and> postponeRevision hexObjectId graphsTask ''not-an-id'' = Inr (None, graphsTask)
   \<and> updateRevisionStatus hexObjectId 1704870000000 graphsTask ''64b7f0c2a1d3e4f5a6b7c8ff'' ''done''
       = (False, graphsTask)
   \<and> markRevisionComplete hexObjectId (fixedZone 0) seqId 1704870000000 [graphsTask] aliceId
        ''64b7f0c2a1d3e4f5a6b7c8d0'' ''64b7f0c2a1d3e4f5a6b7c8ff'' (Some ''done'') =
       (Failure 404 ''Revision not found'', [graphsTask])
   \<and> markRevisionComplete hexObjectId (fixedZone 0) seqId 1704870000000 [graphsTask] aliceId
        ''64b7f0c2a1d3e4f5a6b7c8d0'' ''not-an-id'' (Some ''postponed'') =
       (Failure 404 ''Revision not found or postpone failed'', [graphsTask])"
proof -
  have a: "hexObjectId ''not-an-id'' = None
     \<or> (\<exists>oid. hexObjectId ''not-an-id'' = Some oid \<and> oid \<notin> rev_id ` set (revisions graphsTask))"
    by (simp add: hexObjectId_def)
  have b0: "hexObjectId ''64b7f0c2a1d3e4f5a6b7c8ff'' = Some ''64b7f0c2a1d3e4f5a6b7c8ff''"
    by (simp add: hexObjectId_def isHexDigit_def lowerHex_def)
  have b: "hexObjectId ''64b7f0c2a1d3e4f5a6b7c8ff'' = None
     \<or> (\<exists>oid. hexObjectId ''64b7f0c2a1d3e4f5a6b7c8ff'' = Some oid
            \<and> oid \<notin> rev_id ` set (revisions graphsTask))"
    unfolding b0 by (simp add: graphsTask_def jan10Revision_def jan14Revision_def)
  have h5: "hexObjectId ''64b7f0c2a1d3e4f5a6b7c8d0'' = Some ''64b7f0c2a1d3e4f5a6b7c8d0''"
    by (simp add: hexObjectId_def isHexDigit_def lowerHex_def)
  have h6: "findOne hexObjectId [graphsTask] ''64b7f0c2a1d3e4f5a6b7c8d0'' aliceId
            = Inr (Some graphsTask)"
    by (simp add: findOne_def h5) (simp add: graphsTask_def)
  have ne: "Some ''done'' \<noteq> Some ''postponed''" by simp
  from missing_revision_leaves_task_unchanged
         [where castId = hexObjectId and rid = "''not-an-id''" and t = graphsTask
            and store = "[graphsTask]" and tid = "''64b7f0c2a1d3e4f5a6b7c8d0''"
            and uid = aliceId and z = "fixedZone 0" and genId = seqId
            and now = 1704870000000 and req = "Some ''done''" and st = "''done''"
            and d = 0, OF a]
       missing_revision_leaves_task_unchanged
         [where castId = hexObjectId and rid = "''64b7f0c2a1d3e4f5a6b7c8ff''" and t = graphsTask
            and store = "[graphsTask]" and tid = "''64b7f0c2a1d3e4f5a6b7c8d0''"
            and uid = aliceId and z = "fixedZone 0" and genId = seqId
            and now = 1704870000000 and req = "Some ''done''" and st = "''done''"
            and d = 0, OF b]
       a b h6 ne
  show ?thesis by blast
qed

section \<open>The revision-date validator\<close>

lemma map_scheduledDate_newRevisions:
  "map scheduledDate (map (\<lambda>(k, date). newRevision (genId k) date) (enumerate_from0 dates)) = dates"
proof -
  have "scheduledDate \<circ> (\<lambda>(k, date). newRevision (genId k) date) = snd"
    by (auto simp: newRevision_def)
  then have "map scheduledDate (map (\<lambda>(k, date). newRevision (genId k) date) (enumerate_from0 dates))
        = map snd (zip [0 ..< length dates] dates)"
    by (simp add: enumerate_from0_def)
  then show ?thesis by (simp add: map_snd_zip)
qed

lemma save_rejects:
  assumes "r \<in> set (revisions t)" "scheduledDate r < completedDate t"
  shows "save z genId store t = (Inl ValidationError, store)"
proof -
  have "\<not> revisionsValidator t"
    using assms by (force simp: revisionsValidator_def list_all_iff)
  then show ?thesis by (simp add: save_def validateTask_def)
qed

text \<open>
  C5. Saving a task, new or stored, that has a revision scheduled strictly before
  \<open>completedDate\<close> fails with a ValidationError and leaves the collection as it was.
  The create request with such a date among its revisions ends in that error, with
  the collection unchanged. A task whose other fields are valid and whose revisions
  are all scheduled at or after \<open>completedDate\<close> is written with its revisions as
  they are, and a revision scheduled exactly at \<open>completedDate\<close> passes the validator.
\<close>

theorem revision_before_completion_is_rejected:
  "(r \<in> set (revisions t) \<and> scheduledDate r < completedDate t \<longrightarrow>
      save z genId store t = (Inl ValidationError, store))
   \<and> (d \<in> set dates \<and> d < cd \<longrightarrow>
      createTask z genId newId now store uid title' notes' cd (Some dates) =
        (Next ValidationError, store))
   \<and> (title t \<noteq> [] \<and> length (title t) \<le> 200 \<and> length (task_notes t) \<le> 1000
       \<and> list_all (\<lambda>x. status x \<in> set statusValues) (revisions t)
       \<and> revisions t \<noteq> []
       \<and> list_all (\<lambda>x. completedDate t \<le> scheduledDate x) (revisions t) \<longrightarrow>
      save z genId store t = (Inr (t\<lparr>isNew := False\<rparr>), upsert (t\<lparr>isNew := False\<rparr>) store))
   \<and> revisionsValidator (t\<lparr>revisions := [newRevision i (completedDate t)]\<rparr>)"
proof -
  have a: "save z genId store t = (Inl ValidationError, store)"
    if "r \<in> set (revisions t)" "scheduledDate r < completedDate t"
    using that by (rule save_rejects)
  have b: "createTask z genId newId now store uid title' notes' cd (Some dates) =
             (Next ValidationError, store)"
    if "d \<in> set dates" "d < cd"
  proof -
    let ?revs = "map (\<lambda>(k, date). newRevision (genId k) date) (enumerate_from0 dates)"
    let ?task = "\<lparr>task_id = newId, user = uid, title = trim title', task_notes = trim notes',
                   completedDate = cd, revisions = ?revs, isArchived = False,
                   createdAt = now, isNew = True\<rparr>"
    have "d \<in> set (map scheduledDate ?revs)"
      using that(1) by (simp only: map_scheduledDate_newRevisions)
    then obtain x where "x \<in> set ?revs" "scheduledDate x = d" by auto
    then have "x \<in> set (revisions ?task)" "scheduledDate x < completedDate ?task"
      using that(2) by simp_all
    then have "save z genId store ?task = (Inl ValidationError, store)"
      by (rule save_rejects)
    then show ?thesis by (simp add: createTask_def)
  qed
  have c: "save z genId store t = (Inr (t\<lparr>isNew := False\<rparr>), upsert (t\<lparr>isNew := False\<rparr>) store)"
    if "title t \<noteq> [] \<and> length (title t) \<le> 200 \<and> length (task_notes t) \<le> 1000
       \<and> list_all (\<lambda>x. status x \<in> set statusValues) (revisions t)
       \<and> revisions t \<noteq> []
       \<and> list_all (\<lambda>x. completedDate t \<le> scheduledDate x) (revisions t)"
  proof -
    have "validateTask t" using that by (simp add: validateTask_def revisionsValidator_def)
    then show ?thesis using that by (intro save_valid_existing) simp_all
  qed
  have e: "revisionsValidator (t\<lparr>revisions := [newRevision i (completedDate t)]\<rparr>)"
    by (simp add: revisionsValidator_def newRevision_def)
  from a b c e show ?thesis by blast
qed

theorem revision_before_completion_is_rejected_witness:
  "jan10Revision\<lparr>scheduledDate := 1704585599999\<rparr>
     \<in> set (revisions (graphsTask\<lparr>revisions :=
                [jan10Revision\<lparr>scheduledDate := 1704585599999\<rparr>, jan14Revision]\<rparr>))
   \<and> scheduledDate (jan10Revision\<lparr>scheduledDate := 1704585599999\<rparr>)
       < completedDate (graphsTask\<lparr>revisions :=
                [jan10Revision\<lparr>scheduledDate := 1704585599999\<rparr>, jan14Revision]\<rparr>)
   \<and> save (fixedZone 0) seqId [graphsTask]
        (graphsTask\<lparr>revisions :=
           [jan10Revision\<lparr>scheduledDate := 1704585599999\<rparr>, jan14Revision]\<rparr>)
       = (Inl ValidationError, [graphsTask])
   \<and> (1704585599999::int) \<in> set [1704844800000, 1704585599999] \<and> (1704585599999::int) < 1704585600000
   \<and> createTask (fixedZone 0) seqId ''64b7f0c2a1d3e4f5a6b7c8d0'' 1704600000000 [] aliceId
        ''Graphs'' [] 1704585600000 (Some [1704844800000, 1704585599999])
       = (Next ValidationError, [])
   \<and> save (fixedZone 0) seqId [graphsTask]
        (graphsTask\<lparr>revisions :=
           [jan10Revision\<lparr>scheduledDate := 1704585600000\<rparr>, jan14Revision]\<rparr>)
       = (Inr (graphsTask\<lparr>revisions :=
                 [jan10Revision\<lparr>scheduledDate := 1704585600000\<rparr>, jan14Revision],
               isNew := False\<rparr>),
          [graphsTask\<lparr>revisions :=
                 [jan10Revision\<lparr>scheduledDate := 1704585600000\<rparr>, jan14Revision],
               isNew := False\<rparr>])"
proof -
  let ?bad = "graphsTask\<lparr>revisions :=
                [jan10Revision\<lparr>scheduledDate := 1704585599999\<rparr>, jan14Revision]\<rparr>"
  let ?good = "graphsTask\<lparr>revisions :=
                [jan10Revision\<lparr>scheduledDate := 1704585600000\<rparr>, jan14Revision]\<rparr>"
  have h1: "jan10Revision\<lparr>scheduledDate := 1704585599999\<rparr> \<in> set (revisions ?bad)
            \<and> scheduledDate (jan10Revision\<lparr>scheduledDate := 1704585599999\<rparr>) < completedDate ?bad"
    by (simp add: graphsTask_def)
  have h2: "(1704585599999::int) \<in> set [1704844800000, 1704585599999]
            \<and> (1704585599999::int) < 1704585600000"
    by simp
  have h3: "title ?good \<noteq> [] \<and> length (title ?good) \<le> 200 \<and> length (task_notes ?good) \<le> 1000
       \<and> list_all (\<lambda>x. status x \<in> set statusValues) (revisions ?good)
       \<and> revisions ?good \<noteq> []
       \<and> list_all (\<lambda>x. completedDate ?good \<le> scheduledDate x) (revisions ?good)"
    by (simp add: graphsTask_def jan10Revision_def jan14Revision_def statusValues_def)
  have u: "upsert (?good\<lparr>isNew := False\<rparr>) [graphsTask] = [?good\<lparr>isNew := False\<rparr>]"
    by simp
  from revision_before_completion_is_rejected
         [where r = "jan10Revision\<lparr>scheduledDate := 1704585599999\<rparr>" and t = ?bad
            and z = "fixedZone 0" and genId = seqId and store = "[graphsTask]"
            and d = 1704585599999 and dates = "[1704844800000, 1704585599999]"
            and cd = 1704585600000 and newId = "''64b7f0c2a1d3e4f5a6b7c8d0''"
            and now = 1704600000000 and uid = aliceId and title' = "''Graphs''"
            and notes' = "[]" and i = "seqId 0"]
       h1
  have A: "save (fixedZone 0) seqId [graphsTask] ?bad = (Inl ValidationError, [graphsTask])"
    by blast
  from revision_before_completion_is_rejected
         [where r = "jan10Revision" and t = ?good
            and z = "fixedZone 0" and genId = seqId and store = "[]"
            and d = 1704585599999 and dates = "[1704844800000, 1704585599999]"
            and cd = 1704585600000 and newId = "''64b7f0c2a1d3e4f5a6b7c8d0''"
            and now = 1704600000000 and uid = aliceId and title' = "''Graphs''"
            and notes' = "[]" and i = "seqId 0"]
       h2
  have B: "createTask (fixedZone 0) seqId ''64b7f0c2a1d3e4f5a6b7c8d0'' 1704600000000 [] aliceId
        ''Graphs'' [] 1704585600000 (Some [1704844800000, 1704585599999])
       = (Next ValidationError, [])"
    by blast
  from revision_before_completion_is_rejected
         [where r = "jan10Revision" and t = ?good
            and z = "fixedZone 0" and genId = seqId and store = "[graphsTask]"
            and d = 1704585599999 and dates = "[1704844800000, 1704585599999]"
            and cd = 1704585600000 and newId = "''64b7f0c2a1d3e4f5a6b7c8d0''"
            and now = 1704600000000 and uid = aliceId and title' = "''Graphs''"
            and notes' = "[]" and i = "seqId 0"]
       h3
  have C: "save (fixedZone 0) seqId [graphsTask] ?good
           = (Inr (?good\<lparr>isNew := False\<rparr>), upsert (?good\<lparr>isNew := False\<rparr>) [graphsTask])"
    by blast
  from h1 h2 A B C u show ?thesis by simp
qed

section \<open>The revision ordinal\<close>

lemma daysDiff_le_iff: "daysDiff c r \<le> k \<longleftrightarrow> r - c \<le> k * msPerDay"
proof -
  have "daysDiff c r \<le> k \<longleftrightarrow> real_of_int (r - c) / 86400000 \<le> real_of_int k"
    by (simp add: daysDiff_def ceiling_le_iff)
  also have "\<dots> \<longleftrightarrow> real_of_int (r - c) \<le> real_of_int (k * 86400000)"
    by (simp add: pos_divide_le_eq)
  also have "\<dots> \<longleftrightarrow> r - c \<le> k * 86400000"
    by (simp only: of_int_le_iff)
  finally show ?thesis by (simp add: msPerDay_def)
qed

lemma daysDiff_ceiling_div: "daysDiff c r = - ((c - r) div msPerDay)"
proof -
  have "daysDiff c r = \<lceil>real_of_int (r - c) / real_of_int msPerDay\<rceil>"
    by (simp add: daysDiff_def msPerDay_def)
  also have "\<dots> = - (- (r - c) div msPerDay)"
    by (rule ceiling_divide_eq_div)
  finally show ?thesis by simp
qed

lemma revisionDay_toDueRevision:
  "revisionDay (toDueRevision (t, r)) =
     (if scheduledDate r - completedDate t \<le> 3 * msPerDay then 1
      else if scheduledDate r - completedDate t \<le> 7 * msPerDay then 2
      else if scheduledDate r - completedDate t \<le> 14 * msPerDay then 3
      else if scheduledDate r - completedDate t \<le> 30 * msPerDay then 4
      else 5)"
  by (simp add: toDueRevision_def Let_def daysDiff_le_iff)

lemma isFirstRevision_toDueRevision:
  "isFirstRevision (toDueRevision (t, r)) = (revisionDay (toDueRevision (t, r)) = 1)"
  by (simp add: toDueRevision_def Let_def)

lemma aggregateDue_member:
  "(t, r) \<in> set (aggregateDue ts uid s f) \<longleftrightarrow>
     t \<in> set ts \<and> user t = uid \<and> \<not> isArchived t \<and> r \<in> set (revisions t)
     \<and> s \<le> scheduledDate r \<and> scheduledDate r \<le> f \<and> status r = ''pending''"
  by (auto simp: aggregateDue_def unwind_def)

lemma todaysRevisionsTry_InrD:
  assumes "todaysRevisionsTry e uid tz = Inr ds"
  shows "\<exists>s f. getDayBoundsInTimezone (serverZone e) (zones e) (clock e) tz = Inr (s, f)
           \<and> ds = map toDueRevision (aggregateDue (taskCollection e) uid s f)"
  using assms by (auto simp: todaysRevisionsTry_def split: sum.splits if_splits)

lemma daysDiff_elapsedWholeDays:
  "daysDiff c r =
     (if (r - c) mod msPerDay = 0 then elapsedWholeDays c r else elapsedWholeDays c r + 1)"
proof -
  have m: "msPerDay \<noteq> 0" by (simp add: msPerDay_def)
  have "daysDiff c r = - ((- (r - c)) div msPerDay)"
    by (simp add: daysDiff_ceiling_div)
  also have "\<dots> = (if (r - c) mod msPerDay = 0 then (r - c) div msPerDay
                   else (r - c) div msPerDay + 1)"
    using zdiv_zminus1_eq_if [OF m, of "r - c"] by simp
  finally show ?thesis by (simp add: elapsedWholeDays_def)
qed

text \<open>
  C7, as stated, does not hold: the code does not bucket the whole days that have
  elapsed. For the task completed on 2024-01-07T00:00:00Z with a pending revision at
  2024-01-10T01:00:00Z, resolved on that day, three whole days have elapsed between the
  two dates, which the stated buckets give the ordinal 1; the due-set gives the pair
  the ordinal 2, and \<open>isFirstRevision\<close> is false.
\<close>

theorem ordinal_after_three_days_one_hour_counterexample:
  "getTodaysRevisions
      (morningEnv\<lparr>taskCollection :=
         [graphsTask\<lparr>revisions := [jan10Revision\<lparr>scheduledDate := 1704848400000\<rparr>]\<rparr>]\<rparr>)
      aliceId ''UTC'' =
       [\<lparr>taskId = ''64b7f0c2a1d3e4f5a6b7c8d0'', taskTitle = ''Graphs'',
          taskDescription = [], taskCreatedAt = 1704585600000,
          revisionId = ''64b7f0c2a1d3e4f5a6b7c8d1'', revisionDay = 2,
          dueDate = 1704848400000, isFirstRevision = False\<rparr>]
   \<and> completedDate graphsTask = 1704585600000
   \<and> 1704848400000 = 1704585600000 + 3 * msPerDay + msPerHour
   \<and> elapsedWholeDays 1704585600000 1704848400000 = 3
   \<and> ordinalBucket (elapsedWholeDays 1704585600000 1704848400000) = 1"
  by code_simp

text \<open>
  C7, amended. A resolved due-set is the list of the pairs the pipeline selects, each
  turned into a record by \<open>toDueRevision\<close>, in the pipeline's order; a pair is selected
  exactly when its task belongs to the user and is not archived and its revision is
  pending and scheduled within the day bounds, whatever its ordinal. The ordinal of a
  pair is the bucket of the elapsed time between the task's \<open>completedDate\<close> and the
  revision's \<open>scheduledDate\<close> in days, rounded up to the next whole day (the elapsed
  whole days when the elapsed time is a whole number of days, and one more otherwise):
  1 when the revision is scheduled at most 3 days after \<open>completedDate\<close>, 2 when at most
  7, 3 when at most 14, 4 when at most 30, and 5 otherwise; \<open>isFirstRevision\<close> says that
  the ordinal is 1. Exactly 3 days gives ordinal 1 and exactly 4 days gives ordinal 2.
\<close>

theorem revision_ordinal_buckets:
  "revisionDay (toDueRevision (t, r)) =
     (if scheduledDate r - completedDate t \<le> 3 * msPerDay then 1
      else if scheduledDate r - completedDate t \<le> 7 * msPerDay then 2
      else if scheduledDate r - completedDate t \<le> 14 * msPerDay then 3
      else if scheduledDate r - completedDate t \<le> 30 * msPerDay then 4
      else 5)
   \<and> revisionDay (toDueRevision (t, r)) =
     (if daysDiff (completedDate t) (scheduledDate r) \<le> 3 then 1
      else if daysDiff (completedDate t) (scheduledDate r) \<le> 7 then 2
      else if daysDiff (completedDate t) (scheduledDate r) \<le> 14 then 3
      else if daysDiff (completedDate t) (scheduledDate r) \<le> 30 then 4
      else 5)
   \<and> revisionDay (toDueRevision (t, r)) =
       ordinalBucket (daysDiff (completedDate t) (scheduledDate r))
   \<and> daysDiff (completedDate t) (scheduledDate r) =
       - ((completedDate t - scheduledDate r) div msPerDay)
   \<and> daysDiff (completedDate t) (scheduledDate r) =
       (if (scheduledDate r - completedDate t) mod msPerDay = 0
        then elapsedWholeDays (completedDate t) (scheduledDate r)
        else elapsedWholeDays (completedDate t) (scheduledDate r) + 1)
   \<and> isFirstRevision (toDueRevision (t, r)) = (revisionDay (toDueRevision (t, r)) = 1)
   \<and> (scheduledDate r = completedDate t + 3 * msPerDay \<longrightarrow>
        revisionDay (toDueRevision (t, r)) = 1 \<and> isFirstRevision (toDueRevision (t, r)))
   \<and> (scheduledDate r = completedDate t + 4 * msPerDay \<longrightarrow>
        revisionDay (toDueRevision (t, r)) = 2 \<and> \<not> isFirstRevision (toDueRevision (t, r)))
   \<and> (todaysRevisionsTry e uid tz = Inr ds \<longrightarrow>
        (\<exists>s f. getDayBoundsInTimezone (serverZone e) (zones e) (clock e) tz = Inr (s, f)
           \<and> ds = map toDueRevision (aggregateDue (taskCollection e) uid s f)
           \<and> getTodaysRevisions e uid tz = ds))
   \<and> ((t, r) \<in> set (aggregateDue ts uid s f) \<longleftrightarrow>
        t \<in> set ts \<and> user t = uid \<and> \<not> isArchived t \<and> r \<in> set (revisions t)
        \<and> s \<le> scheduledDate r \<and> scheduledDate r \<le> f \<and> status r = ''pending'')"
proof -
  have a: "revisionDay (toDueRevision (t, r)) =
     (if daysDiff (completedDate t) (scheduledDate r) \<le> 3 then 1
      else if daysDiff (completedDate t) (scheduledDate r) \<le> 7 then 2
      else if daysDiff (completedDate t) (scheduledDate r) \<le> 14 then 3
      else if daysDiff (completedDate t) (scheduledDate r) \<le> 30 then 4
      else 5)"
    by (simp add: toDueRevision_def Let_def)
  have b: "revisionDay (toDueRevision (t, r)) = 1 \<and> isFirstRevision (toDueRevision (t, r))"
    if "scheduledDate r = completedDate t + 3 * msPerDay"
    using that by (simp add: revisionDay_toDueRevision isFirstRevision_toDueRevision)
  have c: "revisionDay (toDueRevision (t, r)) = 2 \<and> \<not> isFirstRevision (toDueRevision (t, r))"
    if "scheduledDate r = completedDate t + 4 * msPerDay"
    using that
    by (simp add: revisionDay_toDueRevision isFirstRevision_toDueRevision msPerDay_def)
  have d: "\<exists>s f. getDayBoundsInTimezone (serverZone e) (zones e) (clock e) tz = Inr (s, f)
           \<and> ds = map toDueRevision (aggregateDue (taskCollection e) uid s f)
           \<and> getTodaysRevisions e uid tz = ds"
    if "todaysRevisionsTry e uid tz = Inr ds"
    using todaysRevisionsTry_InrD [OF that] that by (simp add: getTodaysRevisions_def)
  have a': "revisionDay (toDueRevision (t, r)) =
       ordinalBucket (daysDiff (completedDate t) (scheduledDate r))"
    by (simp add: toDueRevision_def Let_def ordinalBucket_def)
  from revisionDay_toDueRevision [of t r] a a' daysDiff_ceiling_div
    daysDiff_elapsedWholeDays [of "completedDate t" "scheduledDate r"]
    isFirstRevision_toDueRevision [of t r] b c d aggregateDue_member [of t r ts uid s f]
  show ?thesis by blast
qed

theorem revision_ordinal_buckets_witness:
  "scheduledDate jan10Revision = completedDate graphsTask + 3 * msPerDay
   \<and> revisionDay (toDueRevision (graphsTask, jan10Revision)) = 1
   \<and> isFirstRevision (toDueRevision (graphsTask, jan10Revision))
   \<and> scheduledDate (jan10Revision\<lparr>scheduledDate := 1704931200000\<rparr>)
       = completedDate graphsTask + 4 * msPerDay
   \<and> revisionDay (toDueRevision (graphsTask, jan10Revision\<lparr>scheduledDate := 1704931200000\<rparr>)) = 2
   \<and> \<not> isFirstRevision (toDueRevision (graphsTask, jan10Revision\<lparr>scheduledDate := 1704931200000\<rparr>))
   \<and> todaysRevisionsTry morningEnv aliceId ''Asia/Kolkata'' =
       Inr [\<lparr>taskId = ''64b7f0c2a1d3e4f5a6b7c8d0'', taskTitle = ''Graphs'',
              taskDescription = [], taskCreatedAt = 1704585600000,
              revisionId = ''64b7f0c2a1d3e4f5a6b7c8d1'', revisionDay = 1,
              dueDate = 1704844800000, isFirstRevision = True\<rparr>]
   \<and> getTodaysRevisions morningEnv aliceId ''Asia/Kolkata'' =
       [\<lparr>taskId = ''64b7f0c2a1d3e4f5a6b7c8d0'', taskTitle = ''Graphs'',
          taskDescription = [], taskCreatedAt = 1704585600000,
          revisionId = ''64b7f0c2a1d3e4f5a6b7c8d1'', revisionDay = 1,
          dueDate = 1704844800000, isFirstRevision = True\<rparr>]
   \<and> (graphsTask, jan10Revision)
       \<in> set (aggregateDue (taskCollection morningEnv) aliceId 1704844800000 1704931199999)"
proof -
  have h3: "scheduledDate jan10Revision = completedDate graphsTask + 3 * msPerDay"
    by (simp add: jan10Revision_def graphsTask_def msPerDay_def)
  have h4: "scheduledDate (jan10Revision\<lparr>scheduledDate := 1704931200000\<rparr>)
            = completedDate graphsTask + 4 * msPerDay"
    by (simp add: graphsTask_def msPerDay_def)
  have h5: "todaysRevisionsTry morningEnv aliceId ''Asia/Kolkata'' =
       Inr [\<lparr>taskId = ''64b7f0c2a1d3e4f5a6b7c8d0'', taskTitle = ''Graphs'',
              taskDescription = [], taskCreatedAt = 1704585600000,
              revisionId = ''64b7f0c2a1d3e4f5a6b7c8d1'', revisionDay = 1,
              dueDate = 1704844800000, isFirstRevision = True\<rparr>]"
    by code_simp
  have h6: "graphsTask \<in> set (taskCollection morningEnv) \<and> user graphsTask = aliceId
            \<and> \<not> isArchived graphsTask \<and> jan10Revision \<in> set (revisions graphsTask)
            \<and> 1704844800000 \<le> scheduledDate jan10Revision
            \<and> scheduledDate jan10Revision \<le> 1704931199999
            \<and> status jan10Revision = ''pending''"
    by (simp add: morningEnv_def graphsTask_def jan10Revision_def)
  note three = revision_ordinal_buckets
    [where t = graphsTask and r = jan10Revision and e = morningEnv and uid = aliceId
       and tz = "''Asia/Kolkata''" and ts = "taskCollection morningEnv"
       and s = 1704844800000 and f = 1704931199999
       and ds = "[\<lparr>taskId = ''64b7f0c2a1d3e4f5a6b7c8d0'', taskTitle = ''Graphs'',
              taskDescription = [], taskCreatedAt = 1704585600000,
              revisionId = ''64b7f0c2a1d3e4f5a6b7c8d1'', revisionDay = 1,
              dueDate = 1704844800000, isFirstRevision = True\<rparr>]"]
  note four = revision_ordinal_buckets
    [where t = graphsTask and r = "jan10Revision\<lparr>scheduledDate := 1704931200000\<rparr>"]
  from three h3 have a: "revisionDay (toDueRevision (graphsTask, jan10Revision)) = 1
      \<and> isFirstRevision (toDueRevision (graphsTask, jan10Revision))"
    by blast
  from four h4 have b:
    "revisionDay (toDueRevision (graphsTask, jan10Revision\<lparr>scheduledDate := 1704931200000\<rparr>)) = 2
     \<and> \<not> isFirstRevision (toDueRevision (graphsTask, jan10Revision\<lparr>scheduledDate := 1704931200000\<rparr>))"
    by blast
  from three h5 have c: "getTodaysRevisions morningEnv aliceId ''Asia/Kolkata'' =
       [\<lparr>taskId = ''64b7f0c2a1d3e4f5a6b7c8d0'', taskTitle = ''Graphs'',
          taskDescription = [], taskCreatedAt = 1704585600000,
          revisionId = ''64b7f0c2a1d3e4f5a6b7c8d1'', revisionDay = 1,
          dueDate = 1704844800000, isFirstRevision = True\<rparr>]"
    by blast
  from three h6 have d: "(graphsTask, jan10Revision)
       \<in> set (aggregateDue (taskCollection morningEnv) aliceId 1704844800000 1704931199999)"
    by blast
  from h3 h4 h5 a b c d show ?thesis by blast
qed

section \<open>One run of the daily reminders\<close>


lemma runUsers_Cons: "runUsers e st (u # us) = runUsers e (processUser e st u) us"
  by (simp add: runUsers_def)









section \<open>Errors inside the due-set resolver\<close>

lemma unknown_zone_errors:
  assumes "db tz = None"
  shows "toLocaleString db t tz = Inl RangeError"
    and "getDayBoundsInTimezone z db t tz = Inl RangeError"
    and "getCurrentTimeInTimezone z db t tz = Inl RangeError"
    and "isTargetHourInTimezone z db t h tz = Inl RangeError"
  using assms
  by (simp_all add: toLocaleString_def getDayBoundsInTimezone_def getCurrentTimeInTimezone_def
      isTargetHourInTimezone_def)

lemma getTodaysRevisions_error: "todaysRevisionsTry e uid tz = Inl err \<Longrightarrow> getTodaysRevisions e uid tz = []"
  by (simp add: getTodaysRevisions_def)

lemma processUser_nothing_due:
  assumes "isTargetHourInTimezone (serverZone e) (zones e) (clock e) 6 (userTimezone u) = Inr True"
    "getTodaysRevisions e (user_id u) (userTimezone u) = []"
  shows "processUser e st u = st"
  using assms by (simp add: processUser_def Let_def)

text \<open>
  C10, as stated, does not hold for an invalid timezone. \<^verbatim>\<open>Europe/Atlantis\<close> is
  unknown to the zone database of \<open>morningEnv\<close>. The resolver does return the empty
  list for it. But the run does not treat a user carrying it as a user with nothing due:
  the hour check, which comes before the resolver, raises, and the run counts one
  error, where for the same user with nothing due it counts none.
\<close>

theorem unknown_timezone_is_counted_counterexample:
  "zones morningEnv ''Europe/Atlantis'' = None
   \<and> todaysRevisionsTry morningEnv bobId ''Europe/Atlantis'' = Inl RangeError
   \<and> getTodaysRevisions morningEnv bobId ''Europe/Atlantis'' = []
   \<and> processUser morningEnv initialRun (bobUser\<lparr>timezone := ''Europe/Atlantis''\<rparr>) =
       \<lparr>remindersSent = 0, errors = 1, outbox = []\<rparr>
   \<and> getTodaysRevisions (morningEnv\<lparr>taskCollection := []\<rparr>) bobId ''Asia/Kolkata'' = []
   \<and> processUser (morningEnv\<lparr>taskCollection := []\<rparr>) initialRun
        (bobUser\<lparr>timezone := ''Asia/Kolkata''\<rparr>) =
       \<lparr>remindersSent = 0, errors = 0, outbox = []\<rparr>"
  by code_simp

text \<open>
  C10, amended. Whenever the body of the resolver raises an error, the resolver returns
  the empty list; an unknown timezone and a failing aggregation are two such cases. In
  the run the resolver is reached only by a user whose hour check has returned true. If
  the resolution of such a user raises, the user's zone is known and the error is the
  storage failure, and the user is passed over with the run state unchanged: no mail,
  no error counted, exactly as for a user whose resolution succeeded with nothing due.
  A user whose timezone is unknown to the zone database does not reach the resolver:
  the hour check raises, the run counts one error for that user and sends nothing.
\<close>

theorem resolver_errors_become_empty_due_set:
  "(todaysRevisionsTry e uid tz = Inl err \<longrightarrow> getTodaysRevisions e uid tz = [])
   \<and> (zones e tz = None \<longrightarrow>
        todaysRevisionsTry e uid tz = Inl RangeError \<and> getTodaysRevisions e uid tz = [])
   \<and> (zones e tz \<noteq> None \<and> aggregateFails e uid \<longrightarrow>
        todaysRevisionsTry e uid tz = Inl StorageError \<and> getTodaysRevisions e uid tz = [])
   \<and> (isTargetHourInTimezone (serverZone e) (zones e) (clock e) 6 (userTimezone u) = Inr True
       \<and> todaysRevisionsTry e (user_id u) (userTimezone u) = Inl err \<longrightarrow>
        processUser e st u = st)
   \<and> (isTargetHourInTimezone (serverZone e) (zones e) (clock e) 6 (userTimezone u) = Inr True
       \<and> todaysRevisionsTry e (user_id u) (userTimezone u) = Inr [] \<longrightarrow>
        processUser e st u = st)
   \<and> (isTargetHourInTimezone (serverZone e) (zones e) (clock e) 6 (userTimezone u) = Inr True
       \<and> todaysRevisionsTry e (user_id u) (userTimezone u) = Inl err \<longrightarrow>
        zones e (userTimezone u) \<noteq> None \<and> err = StorageError)
   \<and> (zones e (userTimezone u) = None \<longrightarrow>
        isTargetHourInTimezone (serverZone e) (zones e) (clock e) 6 (userTimezone u)
          = Inl RangeError
        \<and> getTodaysRevisions e (user_id u) (userTimezone u) = []
        \<and> processUser e st u = st\<lparr>errors := errors st + 1\<rparr>)"
proof -
  have a: "getTodaysRevisions e uid tz = []" if "todaysRevisionsTry e uid tz = Inl err"
    using that by (rule getTodaysRevisions_error)
  have b: "todaysRevisionsTry e uid tz = Inl RangeError \<and> getTodaysRevisions e uid tz = []"
    if "zones e tz = None"
    using that by (simp add: todaysRevisionsTry_def getTodaysRevisions_def unknown_zone_errors)
  have c: "todaysRevisionsTry e uid tz = Inl StorageError \<and> getTodaysRevisions e uid tz = []"
    if "zones e tz \<noteq> None \<and> aggregateFails e uid"
    using that
    by (auto simp: todaysRevisionsTry_def getTodaysRevisions_def getDayBoundsInTimezone_def
        toLocaleString_def Let_def)
  have d: "processUser e st u = st"
    if "isTargetHourInTimezone (serverZone e) (zones e) (clock e) 6 (userTimezone u) = Inr True
        \<and> todaysRevisionsTry e (user_id u) (userTimezone u) = Inl err"
    using that by (intro processUser_nothing_due) (simp_all add: getTodaysRevisions_def)
  have f: "processUser e st u = st"
    if "isTargetHourInTimezone (serverZone e) (zones e) (clock e) 6 (userTimezone u) = Inr True
        \<and> todaysRevisionsTry e (user_id u) (userTimezone u) = Inr []"
    using that by (intro processUser_nothing_due) (simp_all add: getTodaysRevisions_def)
  have g: "zones e (userTimezone u) \<noteq> None \<and> err = StorageError"
    if "isTargetHourInTimezone (serverZone e) (zones e) (clock e) 6 (userTimezone u) = Inr True
        \<and> todaysRevisionsTry e (user_id u) (userTimezone u) = Inl err"
  proof -
    have k: "zones e (userTimezone u) \<noteq> None"
      using that unknown_zone_errors(4) [of "zones e" "userTimezone u" "serverZone e" "clock e" 6]
      by auto
    then obtain off where "zones e (userTimezone u) = Some off" by blast
    with that have "err = StorageError"
      by (auto simp: todaysRevisionsTry_def getDayBoundsInTimezone_def toLocaleString_def
          Let_def split: if_splits)
    with k show ?thesis by simp
  qed
  have h: "isTargetHourInTimezone (serverZone e) (zones e) (clock e) 6 (userTimezone u)
             = Inl RangeError
           \<and> getTodaysRevisions e (user_id u) (userTimezone u) = []
           \<and> processUser e st u = st\<lparr>errors := errors st + 1\<rparr>"
    if "zones e (userTimezone u) = None"
  proof -
    have i: "isTargetHourInTimezone (serverZone e) (zones e) (clock e) 6 (userTimezone u)
             = Inl RangeError"
      using that by (simp add: unknown_zone_errors)
    have r: "getTodaysRevisions e (user_id u) (userTimezone u) = []"
      using that
      by (simp add: todaysRevisionsTry_def getTodaysRevisions_def unknown_zone_errors)
    from i have "processUser e st u = st\<lparr>errors := errors st + 1\<rparr>"
      by (simp add: processUser_def Let_def)
    with i r show ?thesis by simp
  qed
  from a b c d f g h show ?thesis by blast
qed

theorem resolver_errors_become_empty_due_set_witness:
  "zones morningEnv ''Mars/Phobos'' = None
   \<and> getTodaysRevisions morningEnv aliceId ''Mars/Phobos'' = []
   \<and> zones (morningEnv\<lparr>aggregateFails := (\<lambda>i. i = aliceId)\<rparr>) ''Asia/Kolkata'' \<noteq> None
   \<and> aggregateFails (morningEnv\<lparr>aggregateFails := (\<lambda>i. i = aliceId)\<rparr>) aliceId
   \<and> todaysRevisionsTry (morningEnv\<lparr>aggregateFails := (\<lambda>i. i = aliceId)\<rparr>)
        (user_id aliceUser) (userTimezone aliceUser) = Inl StorageError
   \<and> isTargetHourInTimezone (serverZone (morningEnv\<lparr>aggregateFails := (\<lambda>i. i = aliceId)\<rparr>))
        (zones (morningEnv\<lparr>aggregateFails := (\<lambda>i. i = aliceId)\<rparr>))
        (clock (morningEnv\<lparr>aggregateFails := (\<lambda>i. i = aliceId)\<rparr>)) 6
        (userTimezone aliceUser) = Inr True
   \<and> processUser (morningEnv\<lparr>aggregateFails := (\<lambda>i. i = aliceId)\<rparr>) initialRun aliceUser
       = initialRun
   \<and> todaysRevisionsTry morningEnv (user_id aliceUser) (userTimezone aliceUser)
       \<noteq> Inr []
   \<and> isTargetHourInTimezone (serverZone (morningEnv\<lparr>taskCollection := []\<rparr>))
        (zones (morningEnv\<lparr>taskCollection := []\<rparr>))
        (clock (morningEnv\<lparr>taskCollection := []\<rparr>)) 6 (userTimezone aliceUser) = Inr True
   \<and> todaysRevisionsTry (morningEnv\<lparr>taskCollection := []\<rparr>) (user_id aliceUser)
        (userTimezone aliceUser) = Inr []
   \<and> processUser (morningEnv\<lparr>taskCollection := []\<rparr>) initialRun aliceUser = initialRun
   \<and> zones morningEnv (userTimezone (bobUser\<lparr>timezone := ''Europe/Atlantis''\<rparr>)) = None
   \<and> processUser morningEnv initialRun (bobUser\<lparr>timezone := ''Europe/Atlantis''\<rparr>)
       = initialRun\<lparr>errors := errors initialRun + 1\<rparr>"
proof -
  let ?e = "morningEnv\<lparr>aggregateFails := (\<lambda>i. i = aliceId)\<rparr>"
  let ?n = "morningEnv\<lparr>taskCollection := []\<rparr>"
  have z: "zones morningEnv ''Mars/Phobos'' = None"
    by (simp add: morningEnv_def fixedOffsetZones_def)
  have k: "zones ?e ''Asia/Kolkata'' \<noteq> None \<and> aggregateFails ?e aliceId"
    by (simp add: morningEnv_def fixedOffsetZones_def)
  have tz: "userTimezone aliceUser = ''Asia/Kolkata''" "user_id aliceUser = aliceId"
    by (simp_all add: userTimezone_def aliceUser_def)
  have h: "isTargetHourInTimezone (serverZone ?e) (zones ?e) (clock ?e) 6 (userTimezone aliceUser)
           = Inr True"
    by code_simp
  have hn: "isTargetHourInTimezone (serverZone ?n) (zones ?n) (clock ?n) 6 (userTimezone aliceUser)
           = Inr True"
    by code_simp
  have tn: "todaysRevisionsTry ?n (user_id aliceUser) (userTimezone aliceUser) = Inr []"
    by code_simp
  have ne: "todaysRevisionsTry morningEnv (user_id aliceUser) (userTimezone aliceUser) \<noteq> Inr []"
    by code_simp
  from resolver_errors_become_empty_due_set
         [where e = morningEnv and uid = aliceId and tz = "''Mars/Phobos''"] z
  have r1: "getTodaysRevisions morningEnv aliceId ''Mars/Phobos'' = []"
    by blast
  from resolver_errors_become_empty_due_set
         [where e = ?e and uid = aliceId and tz = "''Asia/Kolkata''"] k
  have r2: "todaysRevisionsTry ?e (user_id aliceUser) (userTimezone aliceUser) = Inl StorageError"
    unfolding tz by blast
  from resolver_errors_become_empty_due_set
         [where e = ?e and u = aliceUser and err = StorageError and st = initialRun] h r2
  have r3: "processUser ?e initialRun aliceUser = initialRun"
    by blast
  from resolver_errors_become_empty_due_set
         [where e = ?n and u = aliceUser and st = initialRun] hn tn
  have r4: "processUser ?n initialRun aliceUser = initialRun"
    by blast
  have za: "zones morningEnv (userTimezone (bobUser\<lparr>timezone := ''Europe/Atlantis''\<rparr>)) = None"
    by (simp add: morningEnv_def fixedOffsetZones_def userTimezone_def)
  from resolver_errors_become_empty_due_set
         [where e = morningEnv and u = "bobUser\<lparr>timezone := ''Europe/Atlantis''\<rparr>"
            and st = initialRun] za
  have r5: "processUser morningEnv initialRun (bobUser\<lparr>timezone := ''Europe/Atlantis''\<rparr>)
            = initialRun\<lparr>errors := errors initialRun + 1\<rparr>"
    by blast
  from z k h hn tn ne r1 r2 r3 r4 za r5 show ?thesis by blast
qed

section \<open>An unknown timezone identifier\<close>

text \<open>
  C4, as stated, does not hold. In the run of \<open>morningEnv\<close> the identifier
  \<^verbatim>\<open>Mars/Phobos\<close> is unknown to the zone database. A user carrying it is not
  processed in the default zone: the hour check raises, the user gets no mail and the
  run counts one error, while the same user with the default zone
  \<^verbatim>\<open>Asia/Kolkata\<close> is sent a mail; and the resolver returns no revisions for the
  unknown zone where it returns one for the default zone.
\<close>

theorem unknown_timezone_no_fallback_counterexample:
  "zones morningEnv ''Mars/Phobos'' = None
   \<and> processUser morningEnv initialRun (aliceUser\<lparr>timezone := ''Mars/Phobos''\<rparr>) =
       \<lparr>remindersSent = 0, errors = 1, outbox = []\<rparr>
   \<and> processUser morningEnv initialRun (aliceUser\<lparr>timezone := ''Asia/Kolkata''\<rparr>) =
       \<lparr>remindersSent = 1, errors = 0,
          outbox = [(''alice@example.com'', ''alice'',
                     [\<lparr>taskId = ''64b7f0c2a1d3e4f5a6b7c8d0'', taskTitle = ''Graphs'',
                        taskDescription = [], taskCreatedAt = 1704585600000,
                        revisionId = ''64b7f0c2a1d3e4f5a6b7c8d1'', revisionDay = 1,
                        dueDate = 1704844800000, isFirstRevision = True\<rparr>])]\<rparr>
   \<and> getTodaysRevisions morningEnv aliceId ''Mars/Phobos'' = []
   \<and> getTodaysRevisions morningEnv aliceId ''Asia/Kolkata'' =
       [\<lparr>taskId = ''64b7f0c2a1d3e4f5a6b7c8d0'', taskTitle = ''Graphs'',
          taskDescription = [], taskCreatedAt = 1704585600000,
          revisionId = ''64b7f0c2a1d3e4f5a6b7c8d1'', revisionDay = 1,
          dueDate = 1704844800000, isFirstRevision = True\<rparr>]"
  by code_simp

text \<open>
  C4, amended. For an identifier unknown to the zone database, the day bounds and the
  hour check fail with a RangeError. No caller falls back to a default zone: the
  resolver returns the empty list, and the run counts one error for a user carrying the
  identifier, sends that user nothing and goes on with the users after. Only a user
  with no timezone at all is processed in the default zone \<^verbatim>\<open>Asia/Kolkata\<close>.
\<close>

theorem unknown_timezone_is_an_error_per_user:
  assumes "zones e tz = None"
  shows "getDayBoundsInTimezone (serverZone e) (zones e) d tz = Inl RangeError
       \<and> isTargetHourInTimezone (serverZone e) (zones e) d h tz = Inl RangeError
       \<and> getTodaysRevisions e uid tz = []
       \<and> (userTimezone u = tz \<longrightarrow>
            processUser e st u = st\<lparr>errors := errors st + 1\<rparr>
          \<and> runUsers e st (u # us) = runUsers e (st\<lparr>errors := errors st + 1\<rparr>) us)
       \<and> (timezone w = [] \<longrightarrow>
            processUser e st w = processUser e st (w\<lparr>timezone := ''Asia/Kolkata''\<rparr>))"
proof -
  have a: "getDayBoundsInTimezone (serverZone e) (zones e) d tz = Inl RangeError"
    "isTargetHourInTimezone (serverZone e) (zones e) d h tz = Inl RangeError"
    using assms by (simp_all add: unknown_zone_errors)
  have b: "getTodaysRevisions e uid tz = []"
    using assms by (simp add: getTodaysRevisions_def todaysRevisionsTry_def unknown_zone_errors)
  have c: "processUser e st u = st\<lparr>errors := errors st + 1\<rparr>
          \<and> runUsers e st (u # us) = runUsers e (st\<lparr>errors := errors st + 1\<rparr>) us"
    if "userTimezone u = tz"
  proof -
    have "isTargetHourInTimezone (serverZone e) (zones e) (clock e) 6 (userTimezone u)
          = Inl RangeError"
      using assms that by (simp add: unknown_zone_errors)
    then have "processUser e st u = st\<lparr>errors := errors st + 1\<rparr>"
      by (simp add: processUser_def Let_def)
    then show ?thesis by (simp add: runUsers_Cons)
  qed
  have k: "processUser e st w = processUser e st (w\<lparr>timezone := ''Asia/Kolkata''\<rparr>)"
    if "timezone w = []"
    using that
    by (simp add: processUser_def userTimezone_def userName_def Let_def
        split: sum.splits bool.splits)
  from a b c k show ?thesis by blast
qed

theorem unknown_timezone_is_an_error_per_user_witness:
  "zones morningEnv ''Mars/Phobos'' = None
   \<and> userTimezone (aliceUser\<lparr>timezone := ''Mars/Phobos''\<rparr>) = ''Mars/Phobos''
   \<and> timezone bobUser = []
   \<and> getDayBoundsInTimezone (serverZone morningEnv) (zones morningEnv) 1704847500000
        ''Mars/Phobos'' = Inl RangeError
   \<and> processUser morningEnv initialRun (aliceUser\<lparr>timezone := ''Mars/Phobos''\<rparr>)
       = initialRun\<lparr>errors := errors initialRun + 1\<rparr>
   \<and> runUsers morningEnv initialRun [aliceUser\<lparr>timezone := ''Mars/Phobos''\<rparr>, bobUser]
       = runUsers morningEnv (initialRun\<lparr>errors := errors initialRun + 1\<rparr>) [bobUser]
   \<and> processUser morningEnv initialRun bobUser
       = processUser morningEnv initialRun (bobUser\<lparr>timezone := ''Asia/Kolkata''\<rparr>)"
proof -
  have z: "zones morningEnv ''Mars/Phobos'' = None"
    by (simp add: morningEnv_def fixedOffsetZones_def)
  have t: "userTimezone (aliceUser\<lparr>timezone := ''Mars/Phobos''\<rparr>) = ''Mars/Phobos''"
    by (simp add: userTimezone_def)
  have b: "timezone bobUser = []"
    by (simp add: bobUser_def)
  from unknown_timezone_is_an_error_per_user
         [where e = morningEnv and tz = "''Mars/Phobos''" and d = 1704847500000
            and u = "aliceUser\<lparr>timezone := ''Mars/Phobos''\<rparr>" and st = initialRun
            and us = "[bobUser]" and w = bobUser, OF z] t b
  show ?thesis using z by blast
qed

section \<open>Day bounds and the local hour\<close>

lemma MakeTime_fields:
  "MakeTime (HourFromTime t) (MinFromTime t) (SecFromTime t) 0 = TimeWithinDay t - msFromTime t"
proof -
  define s where "s = t div 1000"
  define mi where "mi = s div 60"
  define h where "h = mi div 60"
  have n: "(86400000::int) = 1000 * 86400" "(86400::int) = 60 * 1440" "(1440::int) = 60 * 24"
    "(60000::int) = 1000 * 60" "(3600000::int) = 1000 * 3600" "(3600::int) = 60 * 60"
    by simp_all
  have a: "t mod 86400000 = 1000 * (s mod 86400) + t mod 1000"
    unfolding n(1) s_def by (rule zmod_zmult2_eq) simp
  have b: "s mod 86400 = 60 * (mi mod 1440) + s mod 60"
    unfolding n(2) mi_def by (rule zmod_zmult2_eq) simp
  have c: "mi mod 1440 = 60 * (h mod 24) + mi mod 60"
    unfolding n(3) h_def by (rule zmod_zmult2_eq) simp
  have d: "t div 60000 = mi"
    unfolding n(4) mi_def s_def by (rule zdiv_zmult2_eq) simp
  have "t div 3600000 = s div 3600"
    unfolding n(5) s_def by (rule zdiv_zmult2_eq) simp
  also have "\<dots> = h"
    unfolding n(6) h_def mi_def by (rule zdiv_zmult2_eq) simp
  finally have e: "t div 3600000 = h" .
  have "MakeTime (HourFromTime t) (MinFromTime t) (SecFromTime t) 0 =
          (h mod 24) * 3600000 + (mi mod 60) * 60000 + (s mod 60) * 1000"
    by (simp add: MakeTime_def HourFromTime_def MinFromTime_def SecFromTime_def
        msPerHour_def msPerMinute_def msPerSecond_def d e s_def [symmetric])
  also have "\<dots> = t mod 86400000 - t mod 1000"
    unfolding a b c by (simp add: algebra_simps)
  finally show ?thesis
    by (simp add: TimeWithinDay_def msFromTime_def msPerDay_def msPerSecond_def)
qed

lemma drop_ms_div:
  fixes t k :: int
  assumes "0 \<le> k"
  shows "(t - t mod 1000) div (1000 * k) = t div (1000 * k)"
proof -
  have "t - t mod 1000 = 1000 * (t div 1000)"
    by (simp add: minus_mod_eq_mult_div)
  then have "(t - t mod 1000) div (1000 * k) = (1000 * (t div 1000)) div 1000 div k"
    using assms by (simp add: zdiv_zmult2_eq)
  also have "\<dots> = t div 1000 div k" by simp
  also have "\<dots> = t div (1000 * k)" using assms by (simp add: zdiv_zmult2_eq)
  finally show ?thesis .
qed

lemma Day_drop_ms: "Day (t - msFromTime t) = Day t"
  using drop_ms_div [of 86400 t] by (simp add: Day_def msFromTime_def msPerSecond_def msPerDay_def)

lemma Hour_drop_ms: "HourFromTime (t - msFromTime t) = HourFromTime t"
  using drop_ms_div [of 3600 t]
  by (simp add: HourFromTime_def msFromTime_def msPerSecond_def msPerHour_def)

lemma parseDate_fields:
  "parseDate z
     \<lparr>wcYear = YearFromTime lt, wcMonth = MonthFromTime lt + 1,
        wcDay = DateFromTime lt, wcHour = HourFromTime lt,
        wcMinute = MinFromTime lt, wcSecond = SecFromTime lt\<rparr>
   = UTC z (lt - msFromTime lt)"
proof -
  have d: "MakeDay (YearFromTime lt) (MonthFromTime lt) (DateFromTime lt) = Day lt"
    using MakeDay_in_month [of lt "DateFromTime lt"] by simp
  have m: "MakeDate (Day lt) (TimeWithinDay lt - msFromTime lt) = lt - msFromTime lt"
    using MakeDate_Day_TimeWithinDay [of lt] by (simp add: MakeDate_def)
  show ?thesis
    by (simp add: parseDate_def d MakeTime_fields m)
qed

lemma LocalTime_UTC_fixedZone: "LocalTime (fixedZone soff) (UTC (fixedZone soff) x) = x"
  by (simp add: LocalTime_def UTC_def fixedZone_def)

lemma getDayBoundsInTimezone_fixedZone:
  assumes "db tz = Some off"
  shows "getDayBoundsInTimezone (fixedZone soff) db date tz =
           Inr (Day (date + off date) * msPerDay - soff,
                Day (date + off date) * msPerDay + (msPerDay - 1) - soff)"
proof -
  let ?lt = "date + off date"
  have s: "setHours (fixedZone soff) (UTC (fixedZone soff) (?lt - msFromTime ?lt)) h m s ms =
          Day ?lt * msPerDay + MakeTime h m s ms - soff" for h m s ms
    unfolding setHours_def LocalTime_UTC_fixedZone Day_drop_ms
    by (simp add: UTC_def fixedZone_def MakeDate_def)
  have e: "MakeTime 0 0 0 0 = 0" "MakeTime 23 59 59 999 = msPerDay - 1"
    by (simp_all add: MakeTime_def msPerHour_def msPerMinute_def msPerSecond_def msPerDay_def)
  have tl: "toLocaleString db date tz =
           Inr \<lparr>wcYear = YearFromTime ?lt, wcMonth = MonthFromTime ?lt + 1,
                wcDay = DateFromTime ?lt, wcHour = HourFromTime ?lt,
                wcMinute = MinFromTime ?lt, wcSecond = SecFromTime ?lt\<rparr>"
    using assms by (simp add: toLocaleString_def Let_def)
  show ?thesis
    unfolding getDayBoundsInTimezone_def Let_def tl
    by (simp add: parseDate_fields s e)
qed

lemma isTargetHourInTimezone_fixedZone:
  assumes "db tz = Some off"
  shows "isTargetHourInTimezone (fixedZone soff) db now h tz
         = Inr (HourFromTime (now + off now) = h)"
proof -
  let ?lt = "now + off now"
  have tl: "toLocaleString db now tz =
           Inr \<lparr>wcYear = YearFromTime ?lt, wcMonth = MonthFromTime ?lt + 1,
                wcDay = DateFromTime ?lt, wcHour = HourFromTime ?lt,
                wcMinute = MinFromTime ?lt, wcSecond = SecFromTime ?lt\<rparr>"
    using assms by (simp add: toLocaleString_def Let_def)
  show ?thesis
    unfolding isTargetHourInTimezone_def getCurrentTimeInTimezone_def tl
    by (simp add: parseDate_fields getHours_def LocalTime_UTC_fixedZone Hour_drop_ms)
qed

lemma getDayBoundsInTimezone_vs_localDayBounds:
  assumes "db tz = Some (\<lambda>t. uoff)"
  shows "getDayBoundsInTimezone (fixedZone soff) db date tz =
           Inr (fst (localDayBounds uoff date) + (uoff - soff),
                snd (localDayBounds uoff date) + (uoff - soff))"
  using getDayBoundsInTimezone_fixedZone [of db tz "\<lambda>t. uoff" soff date] assms
  by (simp add: localDayBounds_def)

text \<open>
  C3. The code does not return the local day bounds. It reads the wall-clock fields of
  the user's zone as if they were local time of the server, so the pair it returns is
  the local day of the user shifted by the difference between the two offsets (the two
  lemmas above); it is right only when the server's zone has the user's offset. On a
  server whose zone is UTC, for the instant 2024-06-15T06:30:00Z (noon of 2024-06-15
  in India) and the zone \<^verbatim>\<open>Asia/Kolkata\<close>, it returns 2024-06-15T00:00:00.000Z and
  2024-06-15T23:59:59.999Z, where the local day runs from 2024-06-14T18:30:00.000Z to
  2024-06-15T18:29:59.999Z. On a server in India's zone it returns the latter pair for
  every zone, also for \<^verbatim>\<open>UTC\<close>.
\<close>

theorem dayBounds_follow_the_server_zone:
  "getDayBoundsInTimezone (fixedZone 0) fixedOffsetZones 1718433000000 ''Asia/Kolkata'' =
     Inr (1718409600000, 1718495999999)
   \<and> localDayBounds 19800000 1718433000000 = (1718389800000, 1718476199999)
   \<and> getDayBoundsInTimezone (fixedZone 19800000) fixedOffsetZones 1718433000000 ''UTC'' =
     Inr (1718389800000, 1718476199999)
   \<and> localDayBounds 0 1718433000000 = (1718409600000, 1718495999999)
   \<and> getDayBoundsInTimezone (fixedZone 19800000) fixedOffsetZones 1718433000000 ''Asia/Kolkata'' =
     Inr (localDayBounds 19800000 1718433000000)"
  by code_simp

end
